theory Spec2Isabelle
  imports Complex_Main
begin

section \<open>Numbers as the Python code sees them\<close>

text \<open>
  Python floats are modelled as real numbers (no rounding error); the few places where
  the code can produce an infinity or a NaN are modelled explicitly further below.
  \<open>py_int\<close> is \<open>int(x)\<close> on a float (truncation towards zero), \<open>py_round\<close> is the
  one-argument \<open>round(x)\<close> (round half to even, result an integer), \<open>py_round_n n\<close>
  is \<open>round(x, n)\<close> and \<open>np_mean\<close> is \<open>np.mean\<close> of a non-empty list.
\<close>

definition py_int :: "real \<Rightarrow> int" where
  "py_int x = (if 0 \<le> x then \<lfloor>x\<rfloor> else \<lceil>x\<rceil>)"

definition py_round :: "real \<Rightarrow> int" where
  "py_round x =
     (let f = \<lfloor>x\<rfloor>; d = x - of_int f
      in if d < 1 / 2 then f else if 1 / 2 < d then f + 1 else if even f then f else f + 1)"

definition py_round_n :: "nat \<Rightarrow> real \<Rightarrow> real" where
  "py_round_n n x = of_int (py_round (x * 10 ^ n)) / 10 ^ n"

definition np_mean :: "real list \<Rightarrow> real" where
  "np_mean xs = sum_list xs / real (length xs)"

section \<open>One-rep-max estimation: \<open>calculate_1rm\<close>\<close>

text \<open>
  \<open>services/strength_predictor.py\<close>, \<open>calculate_1rm(weight, reps, formula)\<close>. The
  dictionary \<open>formulas\<close> is built eagerly, in the order of the source; the branch
  \<open>'average'\<close> takes \<open>np.mean\<close> of all its values, any other name is looked up with
  \<open>epley\<close> as the default.
\<close>

definition epley :: "real \<Rightarrow> int \<Rightarrow> real" where
  "epley weight reps = weight * (1 + of_int reps / 30)"

definition brzycki :: "real \<Rightarrow> int \<Rightarrow> real" where
  "brzycki weight reps =
     (if reps < 37 then weight * (36 / (37 - of_int reps)) else weight * 2)"

definition lombardi :: "real \<Rightarrow> int \<Rightarrow> real" where
  "lombardi weight reps = weight * (of_int reps powr (1 / 10))"

definition oconner :: "real \<Rightarrow> int \<Rightarrow> real" where
  "oconner weight reps = weight * (1 + of_int reps / 40)"

definition mayhew :: "real \<Rightarrow> int \<Rightarrow> real" where
  "mayhew weight reps =
     weight * (100 / (522 / 10 + 419 / 10 * exp (- (55 / 1000) * of_int reps)))"

definition formulas :: "real \<Rightarrow> int \<Rightarrow> (string \<times> real) list" where
  "formulas weight reps =
     [(''epley'', epley weight reps),
      (''brzycki'', brzycki weight reps),
      (''lombardi'', lombardi weight reps),
      (''oconner'', oconner weight reps),
      (''mayhew'', mayhew weight reps)]"

definition calculate_1rm :: "real \<Rightarrow> int \<Rightarrow> string \<Rightarrow> real" where
  "calculate_1rm weight reps formula =
     (if reps = 1 then weight
      else if reps < 1 \<or> weight \<le> 0 then 0
      else if formula = ''average'' then np_mean (map snd (formulas weight reps))
      else (case map_of (formulas weight reps) formula of
              Some v \<Rightarrow> v
            | None \<Rightarrow> epley weight reps))"

section \<open>Exceptions\<close>

text \<open>The exceptions a call can end with; a function that may raise returns \<open>error + 'a\<close>.\<close>

datatype error =
  ValueError string
  | KeyError string
  | OverflowError
  | ZeroDivisionError
  | NotFittedError
  | TypeError string

section \<open>Non-finite floats\<close>

text \<open>
  Dividing a numpy float by zero gives an infinity or a NaN instead of raising. Values
  that can come out of such a division are of type \<open>fl\<close>; signed zeros are not
  distinguished. Comparisons with a NaN are false, and Python's \<open>max(a, b)\<close> and
  \<open>min(a, b)\<close> return \<open>a\<close> unless \<open>b > a\<close> (respectively \<open>b < a\<close>) holds.
\<close>

datatype fl = Finite real | PosInf | NegInf | NaN

definition fdiv :: "real \<Rightarrow> real \<Rightarrow> fl" where
  "fdiv a b =
     (if b \<noteq> 0 then Finite (a / b)
      else if 0 < a then PosInf else if a < 0 then NegInf else NaN)"

fun fl_add :: "fl \<Rightarrow> fl \<Rightarrow> fl" where
  "fl_add (Finite a) (Finite b) = Finite (a + b)"
| "fl_add NaN _ = NaN"
| "fl_add _ NaN = NaN"
| "fl_add PosInf NegInf = NaN"
| "fl_add NegInf PosInf = NaN"
| "fl_add PosInf _ = PosInf"
| "fl_add _ PosInf = PosInf"
| "fl_add NegInf _ = NegInf"
| "fl_add _ NegInf = NegInf"

fun fl_scale :: "real \<Rightarrow> fl \<Rightarrow> fl" where
  "fl_scale c (Finite a) = Finite (c * a)"
| "fl_scale c NaN = NaN"
| "fl_scale c PosInf = (if 0 < c then PosInf else if c < 0 then NegInf else NaN)"
| "fl_scale c NegInf = (if 0 < c then NegInf else if c < 0 then PosInf else NaN)"

fun fl_less :: "fl \<Rightarrow> fl \<Rightarrow> bool" where
  "fl_less (Finite a) (Finite b) = (a < b)"
| "fl_less NaN _ = False"
| "fl_less _ NaN = False"
| "fl_less NegInf NegInf = False"
| "fl_less NegInf _ = True"
| "fl_less _ NegInf = False"
| "fl_less PosInf _ = False"
| "fl_less _ PosInf = True"

definition py_max :: "fl \<Rightarrow> fl \<Rightarrow> fl" where
  "py_max a b = (if fl_less a b then b else a)"

definition py_min :: "fl \<Rightarrow> fl \<Rightarrow> fl" where
  "py_min a b = (if fl_less b a then b else a)"

fun fl_round_n :: "nat \<Rightarrow> fl \<Rightarrow> fl" where
  "fl_round_n n (Finite a) = Finite (py_round_n n a)"
| "fl_round_n n x = x"

definition fl_mean :: "fl list \<Rightarrow> fl" where
  "fl_mean xs =
     (let ys = filter (\<lambda>x. x \<noteq> NaN) xs
      in if ys = [] then NaN
         else fl_scale (1 / real (length ys)) (foldl fl_add (Finite 0) ys))"

section \<open>Tables and column statistics\<close>

text \<open>
  A date cell is either the value the caller supplied (an ISO string or a
  \<open>datetime.date\<close>, \<open>Raw\<close>) or a pandas timestamp (\<open>Timestamp\<close>); both carry the
  day number of the calendar day they denote, and \<open>pd.to_datetime\<close> turns either into a
  timestamp. A session row has every column the engines read. \<open>estimated_1rm\<close> and
  \<open>avg_rpe\<close> are float columns, whose missing cell is a NaN (\<open>None\<close> here).
  A cell of \<open>perceived_exertion\<close> is a number, a NaN or Python's \<open>None\<close> (a column
  of SQL NULLs that was not converted with \<open>pd.to_numeric\<close>): pandas counts both
  as missing (\<open>notna\<close>, \<open>dropna\<close>), a Python comparison does not. \<open>observed\<close>
  is the value of a cell that is not missing. A data frame lists its column names and
  its rows, each with its index label; \<open>pd.DataFrame(rows)\<close> labels the rows
  0, 1, 2, ... in the order given.
\<close>

datatype cell = Number real | NaN_cell | None_cell

fun observed :: "cell \<Rightarrow> real option" where
  "observed (Number v) = Some v"
| "observed NaN_cell = None"
| "observed None_cell = None"

datatype date_cell = Raw int | Timestamp int

fun day_of :: "date_cell \<Rightarrow> int" where
  "day_of (Raw d) = d"
| "day_of (Timestamp d) = d"

definition to_datetime :: "date_cell \<Rightarrow> date_cell" where
  "to_datetime c = Timestamp (day_of c)"

record session =
  row_id :: int
  workout_date :: date_cell
  total_volume :: real
  estimated_1rm :: "real option"
  avg_rpe :: "real option"
  perceived_exertion :: cell

record 'r frame =
  columns :: "string list"
  body :: "(int \<times> 'r) list"

definition data_frame :: "string list \<Rightarrow> 'r list \<Rightarrow> 'r frame" where
  "data_frame cs rs = \<lparr>columns = cs, body = zip (map int [0..<length rs]) rs\<rparr>"

definition has_column :: "string \<Rightarrow> 'r frame \<Rightarrow> bool" where
  "has_column c df = (c \<in> set (columns df))"

definition len :: "'r frame \<Rightarrow> nat" where
  "len df = length (body df)"

definition records :: "'r frame \<Rightarrow> 'r list" where
  "records df = map snd (body df)"

text \<open>
  \<open>df.sort_values('workout_date').copy()\<close>: a new frame, rows ordered by day and
  keeping their labels. Rows of the same day keep the caller's order here.
\<close>

definition sort_values :: "session frame \<Rightarrow> session frame" where
  "sort_values df = df\<lparr>body := sort_key (\<lambda>(l, r). day_of (workout_date r)) (body df)\<rparr>"

definition convert_dates :: "session frame \<Rightarrow> session frame" where
  "convert_dates df =
     df\<lparr>body := map (\<lambda>(l, r). (l, r\<lparr>workout_date := to_datetime (workout_date r)\<rparr>)) (body df)\<rparr>"

definition dropna :: "'a option list \<Rightarrow> 'a list" where
  "dropna xs = map the (filter (\<lambda>x. x \<noteq> None) xs)"

text \<open>
  \<open>Series.mean()\<close>, \<open>Series.var()\<close> and \<open>Series.std()\<close> over the observed values
  (sample variance, one degree of freedom removed); \<open>None\<close> is the NaN pandas returns
  when there are too few values.
\<close>

definition mean :: "real list \<Rightarrow> real option" where
  "mean xs = (if xs = [] then None else Some (sum_list xs / real (length xs)))"

definition var :: "real list \<Rightarrow> real option" where
  "var xs =
     (if length xs < 2 then None
      else (let m = sum_list xs / real (length xs)
            in Some ((\<Sum>x\<leftarrow>xs. (x - m)\<^sup>2) / real (length xs - 1))))"

definition std :: "real list \<Rightarrow> real option" where
  "std xs = map_option sqrt (var xs)"

text \<open>
  \<open>Series.rolling(window, min_periods)\<close> at position \<open>i\<close>: the statistic of the observed
  values among the last \<open>window\<close> cells up to \<open>i\<close>, NaN with fewer than \<open>min_periods\<close>
  of them.
\<close>

definition rolling :: "nat \<Rightarrow> nat \<Rightarrow> (real list \<Rightarrow> real option) \<Rightarrow> real option list \<Rightarrow> nat \<Rightarrow> real option" where
  "rolling window min_periods stat xs i =
     (let obs = dropna (drop (Suc i - window) (take (Suc i) xs))
      in if length obs < min_periods then None else stat obs)"

text \<open>
  \<open>Series.diff()\<close> of the day numbers (first cell NaN) and \<open>Series.pct_change()\<close>
  (missing cells filled forward first, as pandas 1.x and 2.x do by default; first cell NaN).
\<close>

fun diff_days :: "int list \<Rightarrow> int option list" where
  "diff_days [] = []"
| "diff_days (d # ds) = None # map (\<lambda>(a, b). Some (b - a)) (zip (d # ds) ds)"

fun ffill :: "'a option \<Rightarrow> 'a option list \<Rightarrow> 'a option list" where
  "ffill prev [] = []"
| "ffill prev (None # xs) = prev # ffill prev xs"
| "ffill prev (Some x # xs) = Some x # ffill (Some x) xs"

definition change :: "real option \<Rightarrow> real option \<Rightarrow> fl" where
  "change p c =
     (case p of None \<Rightarrow> NaN
      | Some a \<Rightarrow> (case c of None \<Rightarrow> NaN
                  | Some b \<Rightarrow> fl_add (fdiv b a) (Finite (- 1))))"

definition pct_change :: "real option list \<Rightarrow> fl list" where
  "pct_change xs =
     (let ys = ffill None xs
      in case ys of [] \<Rightarrow> [] | y # rest \<Rightarrow> NaN # map (\<lambda>(p, c). change p c) (zip ys rest))"

section \<open>Anomaly detection: \<open>AnomalyDetector\<close>\<close>

text \<open>
  \<open>services/anomaly_detector.py\<close>. An anomaly carries its type, the day of the
  session (the source formats it as \<open>%Y-%m-%d\<close>, which orders like the day number), the
  severity and the numbers of its \<open>details\<close> dictionary; the \<open>message\<close> text, a
  rendering of the same numbers, is left out.

  The two z-scores of the source are quotients by a standard deviation. A quotient by a
  zero standard deviation is the error \<open>ZeroDivisionError\<close> here, so that a detector
  that performed one would return it.
\<close>

datatype anomaly_type =
  PERFORMANCE_DROP | PERFORMANCE_SPIKE | VOLUME_SPIKE | VOLUME_DROP
  | HIGH_FATIGUE | POSSIBLE_PR | LONG_GAP | UNUSUAL_RPE

datatype details =
  Performance real real real
  | Volume real real fl
  | Fatigue real fl
  | Exertion "real list"
  | Gap int real

record anomaly =
  atype :: anomaly_type
  date :: int
  severity :: string
  details :: details

record detector =
  z_threshold :: real

definition z_score :: "real \<Rightarrow> real \<Rightarrow> real \<Rightarrow> error + real" where
  "z_score v m s = (if s = 0 then Inl ZeroDivisionError else Inr ((v - m) / s))"

fun collect :: "('a \<Rightarrow> error + 'b list) \<Rightarrow> 'a list \<Rightarrow> error + 'b list" where
  "collect f [] = Inr []"
| "collect f (x # xs) =
     (case f x of
        Inl e \<Rightarrow> Inl e
      | Inr ys \<Rightarrow> (case collect f xs of Inl e \<Rightarrow> Inl e | Inr zs \<Rightarrow> Inr (ys @ zs)))"

definition performance_row ::
    "detector \<Rightarrow> session \<Rightarrow> real option \<Rightarrow> real option \<Rightarrow> error + anomaly list" where
  "performance_row self row rolling_mean rolling_std =
     (case rolling_mean of
        None \<Rightarrow> Inr []
      | Some m \<Rightarrow>
          (case rolling_std of
             None \<Rightarrow> Inr []
           | Some s \<Rightarrow>
               if s = 0 then Inr []
               else (case estimated_1rm row of
                       None \<Rightarrow> Inr []
                     | Some v \<Rightarrow>
                         (case z_score v m s of
                            Inl e \<Rightarrow> Inl e
                          | Inr z \<Rightarrow>
                              Inr (if z < - z_threshold self then
                                     [\<lparr>atype = PERFORMANCE_DROP,
                                       date = day_of (workout_date row),
                                       severity = (if z < - 3 then ''high'' else ''medium''),
                                       details = Performance (py_round_n 1 v) (py_round_n 1 m)
                                                   (py_round_n 2 z)\<rparr>]
                                   else if z_threshold self < z then
                                     [\<lparr>atype = PERFORMANCE_SPIKE,
                                       date = day_of (workout_date row),
                                       severity = ''low'',
                                       details = Performance (py_round_n 1 v) (py_round_n 1 m)
                                                   (py_round_n 2 z)\<rparr>]
                                   else [])))))"

definition rolling_mean :: "session list \<Rightarrow> nat \<Rightarrow> real option" where
  "rolling_mean rows i = rolling 5 2 mean (map estimated_1rm rows) i"

definition rolling_std :: "session list \<Rightarrow> nat \<Rightarrow> real option" where
  "rolling_std rows i = rolling 5 2 std (map estimated_1rm rows) i"

definition detect_performance_anomalies :: "detector \<Rightarrow> session frame \<Rightarrow> error + anomaly list" where
  "detect_performance_anomalies self df =
     (let rows = records df
      in if \<not> has_column ''estimated_1rm'' df \<or> list_all (\<lambda>r. estimated_1rm r = None) rows
         then Inr []
         else collect (\<lambda>i. performance_row self (rows ! i) (rolling_mean rows i) (rolling_std rows i))
                [0..<length rows])"

definition volume_row :: "detector \<Rightarrow> real \<Rightarrow> real \<Rightarrow> session \<Rightarrow> error + anomaly list" where
  "volume_row self mean_volume std_volume row =
     (case z_score (total_volume row) mean_volume std_volume of
        Inl e \<Rightarrow> Inl e
      | Inr z \<Rightarrow>
          Inr (if z_threshold self < z then
                 [\<lparr>atype = VOLUME_SPIKE,
                   date = day_of (workout_date row),
                   severity = ''medium'',
                   details = Volume (py_round_n 0 (total_volume row)) (py_round_n 0 mean_volume)
                     (fl_round_n 1 (fl_scale 100
                        (fl_add (fdiv (total_volume row) mean_volume) (Finite (- 1)))))\<rparr>]
               else if z < - z_threshold self then
                 [\<lparr>atype = VOLUME_DROP,
                   date = day_of (workout_date row),
                   severity = ''low'',
                   details = Volume (py_round_n 0 (total_volume row)) (py_round_n 0 mean_volume)
                     (fl_round_n 1 (fl_scale 100
                        (fl_add (Finite 1) (fl_scale (- 1) (fdiv (total_volume row) mean_volume)))))\<rparr>]
               else []))"

text \<open>
  With fewer than two rows the standard deviation is NaN: the test \<open>std_volume == 0\<close> is
  false, every z-score is NaN and no row fires.
\<close>

definition detect_volume_anomalies :: "detector \<Rightarrow> session frame \<Rightarrow> error + anomaly list" where
  "detect_volume_anomalies self df =
     (if \<not> has_column ''total_volume'' df then Inr []
      else (let vols = map total_volume (records df)
            in case std vols of
                 None \<Rightarrow> Inr []
               | Some std_volume \<Rightarrow>
                   if std_volume = 0 then Inr []
                   else (case mean vols of
                           None \<Rightarrow> Inr []
                         | Some mean_volume \<Rightarrow>
                             collect (volume_row self mean_volume std_volume) (records df))))"

definition fatigue_row :: "session \<Rightarrow> fl \<Rightarrow> anomaly list" where
  "fatigue_row row performance_trend =
     (case avg_rpe row of
        None \<Rightarrow> []
      | Some rpe \<Rightarrow>
          if 85 / 10 \<le> rpe \<and> performance_trend \<noteq> NaN
             \<and> fl_less performance_trend (Finite (- (5 / 100)))
          then [\<lparr>atype = HIGH_FATIGUE,
                 date = day_of (workout_date row),
                 severity = ''medium'',
                 details = Fatigue rpe (fl_scale 100 performance_trend)\<rparr>]
          else [])"

definition tail :: "nat \<Rightarrow> 'a list \<Rightarrow> 'a list" where
  "tail n xs = drop (length xs - n) xs"

definition head :: "nat \<Rightarrow> 'a list \<Rightarrow> 'a list" where
  "head n xs = take n xs"

definition detect_fatigue_signals :: "session frame \<Rightarrow> anomaly list" where
  "detect_fatigue_signals df =
     (let rows = records df;
          declining =
            (if has_column ''avg_rpe'' df \<and> has_column ''estimated_1rm'' df
             then concat (map (\<lambda>(row, t). fatigue_row row t)
                            (zip rows (pct_change (map estimated_1rm rows))))
             else []);
          recent = tail 3 rows;
          streak =
            (if has_column ''perceived_exertion'' df
                \<and> 3 \<le> length recent
                \<and> list_all (\<lambda>r. observed (perceived_exertion r) \<noteq> None) recent
                \<and> list_all (\<lambda>r. 8 \<le> the (observed (perceived_exertion r))) recent
             then [\<lparr>atype = HIGH_FATIGUE,
                    date = day_of (workout_date (last recent)),
                    severity = ''high'',
                    details = Exertion (map (\<lambda>r. the (observed (perceived_exertion r))) recent)\<rparr>]
             else [])
      in declining @ streak)"

text \<open>
  \<open>max(14, mean_gap + 2 * std_gap)\<close> with a NaN standard deviation (a single gap) is 14.
\<close>

definition gap_row :: "real \<Rightarrow> real \<Rightarrow> session \<Rightarrow> int option \<Rightarrow> anomaly list" where
  "gap_row mean_gap limit row days_gap =
     (case days_gap of
        None \<Rightarrow> []
      | Some g \<Rightarrow>
          if limit < of_int g
          then [\<lparr>atype = LONG_GAP,
                 date = day_of (workout_date row),
                 severity = ''low'',
                 details = Gap g (py_round_n 1 mean_gap)\<rparr>]
          else [])"

definition detect_training_gaps :: "session frame \<Rightarrow> anomaly list" where
  "detect_training_gaps df =
     (let rows = records df;
          days_gap = diff_days (map (\<lambda>r. day_of (workout_date r)) rows);
          gaps = map of_int (dropna days_gap)
      in case mean gaps of
           None \<Rightarrow> []
         | Some mean_gap \<Rightarrow>
             (case std gaps of
                None \<Rightarrow> concat (map (\<lambda>(row, g). gap_row mean_gap 14 row g) (zip rows days_gap))
              | Some std_gap \<Rightarrow>
                  if std_gap = 0 then []
                  else concat (map (\<lambda>(row, g).
                                      gap_row mean_gap (max 14 (mean_gap + 2 * std_gap)) row g)
                                 (zip rows days_gap))))"

definition detect_anomalies :: "detector \<Rightarrow> session frame \<Rightarrow> error + anomaly list" where
  "detect_anomalies self df0 =
     (if len df0 < 3 then Inr []
      else (let df = convert_dates (sort_values df0)
            in case detect_performance_anomalies self df of
                 Inl e \<Rightarrow> Inl e
               | Inr performance \<Rightarrow>
                   (case detect_volume_anomalies self df of
                      Inl e \<Rightarrow> Inl e
                    | Inr volume \<Rightarrow>
                        Inr (sort_key (\<lambda>a. - date a)
                               (performance @ volume @ detect_fatigue_signals df
                                  @ detect_training_gaps df)))))"

section \<open>Health score: \<open>get_health_score\<close>\<close>

text \<open>
  \<open>round\<close> of a float that is not finite raises; the sub-scores are rounded after
  clamping, so the model returns \<open>error + health\<close>. The loop of the recovery score
  evaluates \<open>row.get('perceived_exertion', 0) >= 8\<close> on every row: the column is
  there, so the default 0 is never used; a NaN compares false, and Python's \<open>None\<close>
  raises \<open>TypeError\<close>.
\<close>

fun round_fl :: "fl \<Rightarrow> error + int" where
  "round_fl (Finite a) = Inr (py_round a)"
| "round_fl NaN = Inl (ValueError ''cannot convert float NaN to integer'')"
| "round_fl PosInf = Inl OverflowError"
| "round_fl NegInf = Inl OverflowError"

record scores =
  consistency :: int
  progress :: int
  volume :: int
  recovery :: int

record health_report =
  score :: int
  rating :: string
  breakdown :: scores
  recommendations :: "string list"

datatype health = NoScore string | Health health_report

definition consistency_raw :: "session list \<Rightarrow> real" where
  "consistency_raw rows =
     (let gaps = map of_int (dropna (diff_days (map (\<lambda>r. day_of (workout_date r)) rows)));
          base =
            (case mean gaps of
               None \<Rightarrow> 0
             | Some avg_gap \<Rightarrow>
                 if 2 \<le> avg_gap \<and> avg_gap \<le> 4 then 25
                 else if avg_gap < 2 then 20
                 else if avg_gap \<le> 7 then 20 - (avg_gap - 4) * 3
                 else max 0 (15 - (avg_gap - 7)))
      in case var gaps of
           None \<Rightarrow> base
         | Some gap_variance \<Rightarrow>
             if 10 < gap_variance then base - min 10 (gap_variance / 2) else base)"

definition progress_raw :: "session frame \<Rightarrow> fl" where
  "progress_raw df =
     (let rows = records df
      in if has_column ''estimated_1rm'' df \<and> \<not> list_all (\<lambda>r. estimated_1rm r = None) rows
         then (case mean (dropna (map estimated_1rm (head (length rows div 2) rows))) of
                 None \<Rightarrow> Finite (125 / 10)
               | Some first_half \<Rightarrow>
                   if 0 < first_half
                   then (let progress_pct =
                               (case mean (dropna (map estimated_1rm (tail (length rows div 2) rows))) of
                                  None \<Rightarrow> NaN
                                | Some second_half \<Rightarrow>
                                    Finite ((second_half - first_half) / first_half * 100))
                         in py_min (Finite 25)
                              (py_max (Finite 0) (fl_add (Finite (125 / 10)) (fl_scale 2 progress_pct))))
                   else Finite (125 / 10))
         else Finite (125 / 10))"

definition volume_raw :: "session frame \<Rightarrow> fl" where
  "volume_raw df =
     (if has_column ''total_volume'' df
      then (let vols = map total_volume (records df);
                volume_trend = fl_mean (pct_change (map Some vols));
                ratio = (case std vols of
                           None \<Rightarrow> NaN
                         | Some s \<Rightarrow> (case mean vols of None \<Rightarrow> NaN | Some m \<Rightarrow> fdiv s m));
                volume_consistency = fl_add (Finite 1) (fl_scale (- 1) (py_min (Finite 1) ratio));
                volume = fl_add (fl_add (Finite (125 / 10)) (fl_scale 50 volume_trend))
                           (fl_scale 10 volume_consistency)
            in py_min (Finite 25) (py_max (Finite 0) volume))
      else Finite (125 / 10))"

fun at_least_8 :: "cell \<Rightarrow> error + bool" where
  "at_least_8 (Number e) = Inr (8 \<le> e)"
| "at_least_8 NaN_cell = Inr False"
| "at_least_8 None_cell =
     Inl (TypeError ''>= not supported between instances of NoneType and int'')"

fun streaks :: "session list \<Rightarrow> nat \<Rightarrow> nat \<Rightarrow> error + nat" where
  "streaks [] high_exertion_streak max_streak = Inr max_streak"
| "streaks (row # rows) high_exertion_streak max_streak =
     (case at_least_8 (perceived_exertion row) of
        Inl e \<Rightarrow> Inl e
      | Inr high \<Rightarrow>
          if high
          then streaks rows (high_exertion_streak + 1) (max max_streak (high_exertion_streak + 1))
          else streaks rows 0 max_streak)"

definition recovery_raw :: "session frame \<Rightarrow> error + int" where
  "recovery_raw df =
     (if has_column ''perceived_exertion'' df
      then (case streaks (records df) 0 0 of
              Inl e \<Rightarrow> Inl e
            | Inr max_streak \<Rightarrow> Inr (25 - int max_streak * 3))
      else Inr 25)"

definition get_recommendations :: "scores \<Rightarrow> string list" where
  "get_recommendations sc =
     (let recs =
            (if consistency sc < 15
             then [''Try to maintain more consistent training frequency''] else [])
          @ (if progress sc < 10
             then [''Consider progressive overload - gradually increase weight or volume'']
             else [])
          @ (if recovery sc < 15
             then [''Consider adding deload weeks or reducing intensity periodically'']
             else [])
          @ (if volume sc < 10
             then [''Training volume may be inconsistent - try to standardize your workouts'']
             else [])
      in if recs = []
         then [''Keep up the great work! Your training looks well-balanced.'']
         else recs)"

definition rating_of :: "int \<Rightarrow> string" where
  "rating_of total_score =
     (if 80 \<le> total_score then ''Excellent''
      else if 60 \<le> total_score then ''Good''
      else if 40 \<le> total_score then ''Fair''
      else ''Needs Attention'')"

definition get_health_score :: "session frame \<Rightarrow> error + health" where
  "get_health_score df0 =
     (if len df0 < 5 then Inr (NoScore ''Need at least 5 workouts for health score'')
      else (let df = convert_dates (sort_values df0)
            in case round_fl (progress_raw df) of
                 Inl e \<Rightarrow> Inl e
               | Inr p \<Rightarrow>
                   (case round_fl (volume_raw df) of
                      Inl e \<Rightarrow> Inl e
                    | Inr v \<Rightarrow>
                        (case recovery_raw df of
                           Inl e \<Rightarrow> Inl e
                         | Inr rec \<Rightarrow>
                             (let sc = \<lparr>consistency =
                                          max 0 (py_round (consistency_raw (records df))),
                                        progress = p,
                                        volume = v,
                                        recovery = max 0 rec\<rparr>;
                                  total_score =
                                    consistency sc + progress sc + volume sc + recovery sc
                              in Inr (Health \<lparr>score = total_score,
                                              rating = rating_of total_score,
                                              breakdown = sc,
                                              recommendations = get_recommendations sc\<rparr>))))))"

section \<open>Deload decision: \<open>suggest_deload\<close>\<close>

text \<open>
  \<open>services/recommender.py\<close>, \<open>suggest_deload(workouts_df, sets_df)\<close>. The five
  dictionaries the function can return are the five constructors of \<open>deload\<close>;
  \<open>needs_deload\<close> reads the field of that name. \<open>long_breaks\<close> holds index labels, and
  the last of them is subtracted from the number of rows, as in the source.
\<close>

record workout_set =
  workout_id :: int
  exercise_id :: int
  set_weight :: "real option"
  set_reps :: real
  set_type :: string

datatype deload =
  NotEnoughHistory
  | PeriodTooShort
  | ExertionIncreasing
  | SinceLastBreak int
  | ContinueTraining int

fun needs_deload :: "deload \<Rightarrow> bool" where
  "needs_deload NotEnoughHistory = False"
| "needs_deload PeriodTooShort = False"
| "needs_deload ExertionIncreasing = True"
| "needs_deload (SinceLastBreak n) = True"
| "needs_deload (ContinueTraining n) = False"

definition exertion_increasing :: "session frame \<Rightarrow> session list \<Rightarrow> bool" where
  "exertion_increasing df recent =
     (has_column ''perceived_exertion'' df \<and>
      (let exertion_trend = dropna (map (\<lambda>r. observed (perceived_exertion r)) recent)
       in 4 \<le> length exertion_trend \<and>
          (case mean (head (length exertion_trend div 2) exertion_trend) of
             None \<Rightarrow> False
           | Some first_half \<Rightarrow>
               (case mean (tail (length exertion_trend div 2) exertion_trend) of
                  None \<Rightarrow> False
                | Some second_half \<Rightarrow> first_half + 1 < second_half))))"

definition long_breaks :: "session frame \<Rightarrow> int list" where
  "long_breaks df =
     map fst (filter (\<lambda>(l, g). case g of None \<Rightarrow> False | Some d \<Rightarrow> 7 \<le> d)
                (zip (map fst (body df))
                     (diff_days (map (\<lambda>r. day_of (workout_date r)) (records df)))))"

definition workouts_since_break :: "session frame \<Rightarrow> int" where
  "workouts_since_break df =
     (if long_breaks df \<noteq> [] then int (len df) - last (long_breaks df) else int (len df))"

definition suggest_deload :: "session frame \<Rightarrow> workout_set frame \<Rightarrow> deload" where
  "suggest_deload workouts_df0 sets_df =
     (if len workouts_df0 < 8 then NotEnoughHistory
      else (let workouts_df = convert_dates (sort_values workouts_df0);
                recent = tail 12 (records workouts_df);
                days = map (\<lambda>r. day_of (workout_date r)) recent;
                date_range = Max (set days) - Min (set days)
            in if date_range < 21 then PeriodTooShort
               else if exertion_increasing workouts_df recent then ExertionIncreasing
               else if 16 \<le> workouts_since_break workouts_df
                    then SinceLastBreak (workouts_since_break workouts_df)
                    else ContinueTraining (16 - workouts_since_break workouts_df)))"

section \<open>Strength prediction: \<open>StrengthPredictor\<close>\<close>

text \<open>
  \<open>services/strength_predictor.py\<close>. scikit-learn is outside the repository: the
  scaler and the regression models are a parameter \<open>sk\<close> of the embedding, with the
  four calls the class makes: fitting the scaler, transforming a feature vector, choosing
  and fitting the best model (which also yields the metrics of the report), and
  predicting. Each of them may raise. Feature values are of type \<open>fl\<close>, a missing
  \<open>estimated_1rm\<close> being a NaN.

  The object is a record passed in and returned: \<open>train\<close> assigns its attributes before
  it fits, so they stay assigned when the fit raises. \<open>new_predictor\<close> is the object after
  \<open>__init__\<close>; the attributes that \<open>__init__\<close> leaves unset are not read before
  \<open>train\<close> sets them, since every reader first tests \<open>self.model is None\<close>.
\<close>

record ('s, 'm, 'k) sklearn =
  fit_scaler :: "fl list list \<Rightarrow> error + 's"
  transform :: "'s \<Rightarrow> fl list \<Rightarrow> error + fl list"
  fit_best :: "'s \<Rightarrow> fl list list \<Rightarrow> fl list \<Rightarrow> error + ('m \<times> 'k)"
  predict :: "'m \<Rightarrow> fl list \<Rightarrow> error + real"

record ('s, 'm) predictor =
  model :: "'m option"
  scaler :: "'s option"
  training_data :: "session list"
  last_date :: int
  last_days :: int
  last_session :: int
  last_cumulative_volume :: real
  last_1rm :: fl
  avg_days_between :: real

definition new_predictor :: "('s, 'm) predictor" where
  "new_predictor =
     \<lparr>model = None, scaler = None, training_data = [], last_date = 0, last_days = 0,
      last_session = 0, last_cumulative_volume = 0, last_1rm = NaN, avg_days_between = 0\<rparr>"

record 'k train_report =
  data_points :: nat
  metrics :: 'k

record prepared =
  days_since_start :: "int list"
  cumulative_volume :: "real list"
  rolling_avg_1rm :: "fl list"
  days_since_last :: "real list"
  target :: "fl list"
  processed :: "session list"

definition of_cell :: "real option \<Rightarrow> fl" where
  "of_cell c = (case c of None \<Rightarrow> NaN | Some v \<Rightarrow> Finite v)"

fun cumsum :: "real \<Rightarrow> real list \<Rightarrow> real list" where
  "cumsum acc [] = []"
| "cumsum acc (x # xs) = (acc + x) # cumsum (acc + x) xs"

definition feature_matrix :: "prepared \<Rightarrow> fl list list" where
  "feature_matrix p =
     map (\<lambda>i. [Finite (of_int (days_since_start p ! i)),
                Finite (of_nat (i + 1)),
                Finite (cumulative_volume p ! i),
                rolling_avg_1rm p ! i,
                Finite (days_since_last p ! i)])
       [0..<length (processed p)]"

definition prepare_data :: "session frame \<Rightarrow> error + prepared" where
  "prepare_data df0 =
     (if len df0 < 2 then Inl (ValueError ''Need at least 2 data points for prediction'')
      else (let df = convert_dates (sort_values df0);
                rows = records df;
                days = map (\<lambda>r. day_of (workout_date r)) rows;
                start_date = Min (set days);
                since_start = map (\<lambda>d. d - start_date) days
            in if \<not> has_column ''total_volume'' df then Inl (KeyError ''total_volume'')
               else if \<not> has_column ''estimated_1rm'' df then Inl (KeyError ''estimated_1rm'')
               else Inr \<lparr>days_since_start = since_start,
                         cumulative_volume = cumsum 0 (map total_volume rows),
                         rolling_avg_1rm =
                           map (\<lambda>i. of_cell (rolling 3 1 mean (map estimated_1rm rows) i))
                             [0..<length rows],
                         days_since_last =
                           map (\<lambda>g. case g of None \<Rightarrow> 7 | Some d \<Rightarrow> of_int d)
                             (diff_days since_start),
                         target = map (\<lambda>r. of_cell (estimated_1rm r)) rows,
                         processed = rows\<rparr>))"

definition train ::
    "('s, 'm, 'k) sklearn \<Rightarrow> ('s, 'm) predictor \<Rightarrow> session frame
       \<Rightarrow> ('s, 'm) predictor \<times> (error + 'k train_report)" where
  "train sk self df =
     (case prepare_data df of
        Inl e \<Rightarrow> (self, Inl e)
      | Inr p \<Rightarrow>
          (let X = feature_matrix p;
               y = target p;
               self1 = self\<lparr>training_data := processed p,
                            last_date := Max (set (map (\<lambda>r. day_of (workout_date r)) (processed p))),
                            last_days := Max (set (days_since_start p)),
                            last_session := int (length (processed p)),
                            last_cumulative_volume := last (cumulative_volume p),
                            last_1rm := last (target p),
                            avg_days_between :=
                              sum_list (days_since_last p) / real (length (days_since_last p))\<rparr>
           in case fit_scaler sk X of
                Inl e \<Rightarrow> (self1, Inl e)
              | Inr sc \<Rightarrow>
                  (let self2 = self1\<lparr>scaler := Some sc\<rparr>
                   in case fit_best sk sc X y of
                        Inl e \<Rightarrow> (self2, Inl e)
                      | Inr (m, k) \<Rightarrow>
                          (self2\<lparr>model := Some m\<rparr>,
                           Inr \<lparr>data_points = length X, metrics = k\<rparr>))))"

record prediction =
  pdate :: int
  session_number :: int
  predicted_1rm :: real
  days_from_now :: int

fun int_fl :: "fl \<Rightarrow> error + int" where
  "int_fl (Finite a) = Inr (py_int a)"
| "int_fl NaN = Inl (ValueError ''cannot convert float NaN to integer'')"
| "int_fl PosInf = Inl OverflowError"
| "int_fl NegInf = Inl OverflowError"

text \<open>
  The body of the loop of \<open>predict_future\<close> for the index \<open>i\<close>. The variable
  \<open>future_rolling_avg\<close> lives across iterations (unbound, \<open>None\<close>, before the first),
  so the body takes its value on entry and returns its value on exit together with the new
  entry. \<open>X_future\<close> is the feature vector of the body for a given value of the
  rolling-average feature. A scaler that was never fitted raises when it is asked to
  transform.
\<close>

definition X_future :: "('s, 'm) predictor \<Rightarrow> int \<Rightarrow> fl \<Rightarrow> fl list" where
  "X_future self i future_rolling_avg =
     (let future_days = of_int (last_days self) + of_int i * avg_days_between self;
          future_session = last_session self + i;
          avg_volume_per_session =
            fdiv (last_cumulative_volume self) (of_int (last_session self));
          future_cumulative_volume =
            fl_add (Finite (last_cumulative_volume self)) (fl_scale (of_int i) avg_volume_per_session)
      in [Finite future_days, Finite (of_int future_session),
          future_cumulative_volume, future_rolling_avg,
          Finite (avg_days_between self)])"

definition predict_step ::
    "('s, 'm, 'k) sklearn \<Rightarrow> ('s, 'm) predictor \<Rightarrow> 'm \<Rightarrow> int \<Rightarrow> fl option
       \<Rightarrow> error + (prediction \<times> fl option)" where
  "predict_step sk self m i rolling_avg_in =
     (let future_days = of_int (last_days self) + of_int i * avg_days_between self;
          future_date = last_date self + py_int (of_int i * avg_days_between self);
          future_session = last_session self + i;
          future_rolling_avg = last_1rm self
      in case scaler self of
           None \<Rightarrow> Inl NotFittedError
         | Some sc \<Rightarrow>
             (case transform sk sc (X_future self i future_rolling_avg) of
                Inl e \<Rightarrow> Inl e
              | Inr X_future_scaled \<Rightarrow>
                  (case predict sk m X_future_scaled of
                     Inl e \<Rightarrow> Inl e
                   | Inr predicted \<Rightarrow>
                       Inr (\<lparr>pdate = future_date,
                             session_number = future_session,
                             predicted_1rm = py_round_n 1 predicted,
                             days_from_now = py_int (future_days - of_int (last_days self))\<rparr>,
                            Some (Finite predicted)))))"

fun predict_loop ::
    "('s, 'm, 'k) sklearn \<Rightarrow> ('s, 'm) predictor \<Rightarrow> 'm \<Rightarrow> int list \<Rightarrow> fl option
       \<Rightarrow> prediction list \<Rightarrow> error + prediction list" where
  "predict_loop sk self m [] future_rolling_avg predictions = Inr predictions"
| "predict_loop sk self m (i # rest) future_rolling_avg predictions =
     (case predict_step sk self m i future_rolling_avg of
        Inl e \<Rightarrow> Inl e
      | Inr (entry, future_rolling_avg') \<Rightarrow>
          predict_loop sk self m rest future_rolling_avg' (predictions @ [entry]))"

text \<open>
  The number of future sessions: the argument \<open>sessions_ahead\<close> when it is given,
  \<open>max(1, int(days_ahead / self.avg_days_between))\<close> otherwise; \<open>int\<close> raises on a
  quotient that is not finite.
\<close>

definition sessions_to_predict ::
    "('s, 'm) predictor \<Rightarrow> int \<Rightarrow> int option \<Rightarrow> error + int" where
  "sessions_to_predict self days_ahead sessions_ahead_opt =
     (case sessions_ahead_opt of
        Some n \<Rightarrow> Inr n
      | None \<Rightarrow>
          (case int_fl (fdiv (of_int days_ahead) (avg_days_between self)) of
             Inl e \<Rightarrow> Inl e
           | Inr k \<Rightarrow> Inr (max 1 k)))"

definition predict_future ::
    "('s, 'm, 'k) sklearn \<Rightarrow> ('s, 'm) predictor \<Rightarrow> int \<Rightarrow> int option
       \<Rightarrow> error + prediction list" where
  "predict_future sk self days_ahead sessions_ahead_opt =
     (case model self of
        None \<Rightarrow> Inl (ValueError ''Model not trained. Call train() first.'')
      | Some m \<Rightarrow>
          (case sessions_to_predict self days_ahead sessions_ahead_opt of
             Inl e \<Rightarrow> Inl e
           | Inr sessions_ahead \<Rightarrow> predict_loop sk self m [1..sessions_ahead] None []))"

text \<open>
  The forecast as the claim about the rolling-average feature describes it: the entry of
  each future session is computed on its own, from the index of the session and the
  attributes set by \<open>train\<close>, with \<open>last_1rm\<close> as the rolling-average feature, and
  nothing is carried from one session to the next.
\<close>

definition predict_session ::
    "('s, 'm, 'k) sklearn \<Rightarrow> ('s, 'm) predictor \<Rightarrow> 'm \<Rightarrow> int \<Rightarrow> error + prediction" where
  "predict_session sk self m i =
     (case scaler self of
        None \<Rightarrow> Inl NotFittedError
      | Some sc \<Rightarrow>
          (case transform sk sc (X_future self i (last_1rm self)) of
             Inl e \<Rightarrow> Inl e
           | Inr X_future_scaled \<Rightarrow>
               (case predict sk m X_future_scaled of
                  Inl e \<Rightarrow> Inl e
                | Inr predicted \<Rightarrow>
                    Inr \<lparr>pdate = last_date self + py_int (of_int i * avg_days_between self),
                         session_number = last_session self + i,
                         predicted_1rm = py_round_n 1 predicted,
                         days_from_now = py_int (of_int i * avg_days_between self)\<rparr>)))"

fun predict_sessions ::
    "('s, 'm, 'k) sklearn \<Rightarrow> ('s, 'm) predictor \<Rightarrow> 'm \<Rightarrow> int list \<Rightarrow> error + prediction list" where
  "predict_sessions sk self m [] = Inr []"
| "predict_sessions sk self m (i # rest) =
     (case predict_session sk self m i of
        Inl e \<Rightarrow> Inl e
      | Inr entry \<Rightarrow>
          (case predict_sessions sk self m rest of
             Inl e \<Rightarrow> Inl e
           | Inr entries \<Rightarrow> Inr (entry # entries)))"

text \<open>
  A small instance of the scikit-learn interface, to run the embedding on concrete
  inputs: the scaler leaves a vector as it is, and the model is a list of coefficients
  applied to the features, which must all be finite.
\<close>

fun dot :: "real list \<Rightarrow> fl list \<Rightarrow> error + real" where
  "dot [] [] = Inr 0"
| "dot (c # cs) (Finite a # vs) =
     (case dot cs vs of Inl e \<Rightarrow> Inl e | Inr r \<Rightarrow> Inr (c * a + r))"
| "dot cs vs = Inl (ValueError ''Input contains NaN, infinity or has a wrong shape'')"

definition linear_sklearn :: "real list \<Rightarrow> (unit, real list, unit) sklearn" where
  "linear_sklearn coefficients =
     \<lparr>fit_scaler = (\<lambda>X. Inr ()),
      transform = (\<lambda>sc v. Inr v),
      fit_best = (\<lambda>sc X y. Inr (coefficients, ())),
      predict = dot\<rparr>"

section \<open>Training balance: \<open>analyze_training_balance\<close>\<close>

text \<open>
  \<open>services/recommender.py\<close>. The method assigns the converted dates to the column
  \<open>workout_date\<close> of the frame it was given, so the model returns that frame, as the
  caller finds it after the call, next to the result. \<open>now\<close> is \<open>datetime.now()\<close> in
  days (a day number and a fraction of a day).
\<close>

record targets =
  tmin :: int
  tmax :: int
  optimal :: int

definition VOLUME_TARGETS :: "(string \<times> targets) list" where
  "VOLUME_TARGETS =
     [(''chest'', \<lparr>tmin = 10, tmax = 20, optimal = 14\<rparr>),
      (''back'', \<lparr>tmin = 10, tmax = 20, optimal = 16\<rparr>),
      (''shoulders'', \<lparr>tmin = 8, tmax = 16, optimal = 12\<rparr>),
      (''legs'', \<lparr>tmin = 12, tmax = 22, optimal = 16\<rparr>),
      (''arms'', \<lparr>tmin = 6, tmax = 14, optimal = 10\<rparr>),
      (''core'', \<lparr>tmin = 4, tmax = 12, optimal = 8\<rparr>)]"

record exercise =
  ex_id :: int
  ex_name :: string
  muscle_group :: string
  is_compound :: bool
  equipment :: string

datatype advice = AddSets int | ReduceSets int | VolumeIsGood

record group_analysis =
  sets :: int
  group_volume :: real
  target_range :: "int \<times> int"
  status :: string
  recommendation :: advice

record balance_score =
  balance :: int
  balance_rating :: string

record balance_report =
  period_days :: int
  total_workouts :: nat
  muscle_groups :: "(string \<times> group_analysis) list"
  most_trained :: "string option"
  least_trained :: "string option"
  overall_balance :: balance_score

datatype balance_result = NoData int | Analysis balance_report

definition group_score :: "string \<Rightarrow> group_analysis \<Rightarrow> real" where
  "group_score muscle data =
     (let t = (case map_of VOLUME_TARGETS muscle of
                 Some t \<Rightarrow> t
               | None \<Rightarrow> \<lparr>tmin = 8, tmax = 16, optimal = 12\<rparr>);
          n = sets data
      in if tmin t \<le> n \<and> n \<le> tmax t
         then (let distance_from_optimal = \<bar>n - optimal t\<bar>;
                   max_distance = max (optimal t - tmin t) (tmax t - optimal t)
               in if 0 < max_distance
                  then 100 - (of_int distance_from_optimal / of_int max_distance * 30)
                  else 100)
         else if n < tmin t then max 0 (50 * (of_int n / of_int (tmin t)))
         else max 0 (70 - (of_int n - of_int (tmax t)) * 5))"

definition calculate_balance_score :: "(string \<times> group_analysis) list \<Rightarrow> balance_score" where
  "calculate_balance_score analysis =
     (let total_score = (\<Sum>(muscle, data)\<leftarrow>analysis. group_score muscle data);
          max_score = int (length analysis) * 100;
          final_score =
            (if 0 < max_score then py_round (total_score / of_int max_score * 100) else 0)
      in \<lparr>balance = final_score,
          balance_rating =
            (if 80 \<le> final_score then ''Excellent''
             else if 60 \<le> final_score then ''Good''
             else if 40 \<le> final_score then ''Fair''
             else ''Needs Work'')\<rparr>)"

definition analyze_group :: "(workout_set \<times> exercise) list \<Rightarrow> string \<Rightarrow> targets \<Rightarrow> group_analysis" where
  "analyze_group working_sets muscle t =
     (let mine = filter (\<lambda>(s, e). muscle_group e = muscle) working_sets;
          n = int (length mine);
          vol = (\<Sum>(s, e)\<leftarrow>mine. (case set_weight s of None \<Rightarrow> 0 | Some w \<Rightarrow> w) * set_reps s)
      in \<lparr>sets = n,
          group_volume = py_round_n 0 vol,
          target_range = (tmin t, tmax t),
          status = (if n < tmin t then ''undertrained''
                    else if tmax t < n then ''overtrained'' else ''optimal''),
          recommendation = (if n < tmin t then AddSets (tmin t - n)
                            else if tmax t < n then ReduceSets (n - tmax t) else VolumeIsGood)\<rparr>)"

definition analyze_training_balance ::
    "real \<Rightarrow> session frame \<Rightarrow> workout_set frame \<Rightarrow> exercise frame \<Rightarrow> int
       \<Rightarrow> session frame \<times> balance_result" where
  "analyze_training_balance now workouts_df0 sets_df exercises_df days =
     (let cutoff_date = now - of_int days;
          workouts_df = convert_dates workouts_df0;
          recent_workouts =
            filter (\<lambda>r. cutoff_date \<le> of_int (day_of (workout_date r))) (records workouts_df)
      in if length recent_workouts = 0 then (workouts_df, NoData days)
         else (let recent_workout_ids = map row_id recent_workouts;
                   recent_sets =
                     filter (\<lambda>s. workout_id s \<in> set recent_workout_ids) (records sets_df);
                   sets_with_muscles =
                     concat (map (\<lambda>s. map (\<lambda>e. (s, e))
                                         (filter (\<lambda>e. ex_id e = exercise_id s) (records exercises_df)))
                               recent_sets);
                   working_sets = filter (\<lambda>(s, e). set_type s = ''working'') sets_with_muscles;
                   analysis =
                     map (\<lambda>(muscle, t). (muscle, analyze_group working_sets muscle t)) VOLUME_TARGETS;
                   sorted_muscles = sort_key (\<lambda>(muscle, data). - sets data) analysis
               in (workouts_df,
                   Analysis \<lparr>period_days = days,
                             total_workouts = length recent_workouts,
                             muscle_groups = analysis,
                             most_trained =
                               (if sorted_muscles = [] then None else Some (fst (hd sorted_muscles))),
                             least_trained =
                               (if sorted_muscles = [] then None else Some (fst (last sorted_muscles))),
                             overall_balance = calculate_balance_score analysis\<rparr>)))"

section \<open>Example inputs\<close>

text \<open>
  Tables used to run the embedding: \<open>session_on d v\<close> is a session on day \<open>d\<close> with
  estimated 1RM \<open>v\<close>, a total volume of 1000, no exertion data (NaN) and the date as
  the caller's raw value;
  \<open>history\<close> builds the frame of such sessions in the order given, and
  \<open>three_sessions\<close> has three sessions a week apart with 1RMs 100, 105 and 110;
  \<open>spike_rows\<close> are four sessions whose last 1RM stands out, and
  \<open>unlogged_exertion\<close> has five sessions whose \<open>perceived_exertion\<close> cells are all
  Python's \<open>None\<close>.
\<close>

definition session_columns :: "string list" where
  "session_columns =
     [''id'', ''workout_date'', ''total_volume'', ''estimated_1rm'', ''avg_rpe'',
      ''perceived_exertion'']"

definition session_on :: "int \<Rightarrow> real \<Rightarrow> session" where
  "session_on d v =
     \<lparr>row_id = d, workout_date = Raw d, total_volume = 1000, estimated_1rm = Some v,
      avg_rpe = None, perceived_exertion = NaN_cell\<rparr>"

definition history :: "int list \<Rightarrow> session frame" where
  "history ds = data_frame session_columns (map (\<lambda>d. session_on d 100) ds)"

definition unlogged_exertion :: "session frame" where
  "unlogged_exertion =
     data_frame session_columns
       (map (\<lambda>d. (session_on d 100)\<lparr>perceived_exertion := None_cell\<rparr>) [0, 3, 6, 9, 12])"

definition three_sessions :: "session frame" where
  "three_sessions =
     data_frame session_columns [session_on 0 100, session_on 7 105, session_on 14 110]"

definition spike_rows :: "session list" where
  "spike_rows = [session_on 0 100, session_on 3 100, session_on 6 100, session_on 9 120]"

definition no_sets :: "workout_set frame" where
  "no_sets = data_frame [''id'', ''workout_id'', ''exercise_id'', ''weight'', ''reps'', ''set_type''] []"

definition no_exercises :: "exercise frame" where
  "no_exercises = data_frame [''id'', ''name'', ''muscle_group'', ''is_compound'', ''equipment''] []"

section \<open>Properties of \<open>calculate_1rm\<close>\<close>

lemma calculate_1rm_average:
  "1 < reps \<Longrightarrow> 0 < weight \<Longrightarrow>
   calculate_1rm weight reps ''average'' =
     (epley weight reps + brzycki weight reps + lombardi weight reps
        + oconner weight reps + mayhew weight reps) / 5"
  by (simp add: calculate_1rm_def formulas_def np_mean_def)

lemma lombardi_100_2_upper: "lombardi 100 2 < 108"
proof -
  have "(2::real) powr (1 / 10) < ((108 / 100) ^ 10) powr (1 / 10)"
    by (rule powr_less_mono2) (simp_all add: power_def)
  also have "\<dots> = 108 / 100"
    by (simp add: powr_powr flip: powr_numeral)
  finally show ?thesis
    by (simp add: lombardi_def)
qed

lemma mayhew_100_2_lower: "106 < mayhew 100 2"
proof -
  have e: "exp (- (55 / 1000) * 2 :: real) < 1"
    by simp
  have pos: "0 < 522 / 10 + 419 / 10 * exp (- (55 / 1000) * 2 :: real)"
    by (simp add: add_pos_pos)
  have "522 / 10 + 419 / 10 * exp (- (55 / 1000) * 2 :: real) < 941 / 10"
    using e by simp
  then have "100 / (941 / 10) < 100 / (522 / 10 + 419 / 10 * exp (- (55 / 1000) * 2 :: real))"
    using pos by (intro divide_strict_left_mono) (simp_all add: add_pos_pos)
  then show ?thesis
    by (simp add: mayhew_def)
qed

text \<open>
  C2 (the claim: for weight > 0 and reps > 1 the \<open>'average'\<close> result is the mean of the
  four values epley, brzycki, lombardi and oconner, mayhew left out). At weight 100 and
  2 reps the function returns a value different from the mean of those four: the mean is
  taken over all five entries of \<open>formulas\<close>, mayhew included.
\<close>

theorem calculate_1rm_average_includes_mayhew:
  "calculate_1rm 100 2 ''average'' \<noteq>
     (epley 100 2 + brzycki 100 2 + lombardi 100 2 + oconner 100 2) / 4"
proof -
  have l: "lombardi 100 2 < 108" by (rule lombardi_100_2_upper)
  have m: "106 < mayhew 100 2" by (rule mayhew_100_2_lower)
  have e: "epley 100 2 = 320 / 3" by (simp add: epley_def)
  have b: "brzycki 100 2 = 720 / 7" by (simp add: brzycki_def)
  have oc: "oconner 100 2 = 105" by (simp add: oconner_def)
  have avg: "calculate_1rm 100 2 ''average'' =
      (epley 100 2 + brzycki 100 2 + lombardi 100 2 + oconner 100 2 + mayhew 100 2) / 5"
    by (rule calculate_1rm_average) simp_all
  show ?thesis
    unfolding avg e b oc using l m by simp
qed

text \<open>
  C3: for every weight > 0 and every formula name, known or not,
  \<open>calculate_1rm weight 1 formula\<close> is exactly \<open>weight\<close>.
\<close>

theorem calculate_1rm_one_rep:
  "0 < weight \<Longrightarrow> calculate_1rm weight 1 formula = weight"
  by (simp add: calculate_1rm_def)

theorem calculate_1rm_one_rep_witness:
  "(0::real) < 225 \<and> calculate_1rm 225 1 ''no such formula'' = 225"
  using calculate_1rm_one_rep [of 225 "''no such formula''"] by simp

lemma calculate_1rm_degenerate_cases:
  "reps < 1 \<or> weight \<le> 0 \<Longrightarrow>
   calculate_1rm weight reps formula = (if reps = 1 then weight else 0)"
  by (auto simp: calculate_1rm_def)

lemma calculate_1rm_degenerate_nonzero:
  "reps < 1 \<or> weight \<le> 0 \<Longrightarrow>
   (calculate_1rm weight reps formula \<noteq> 0) = (reps = 1 \<and> weight < 0)"
  by (auto simp: calculate_1rm_def)

text \<open>
  C4 (the claim: whenever reps < 1 or weight \<le> 0 the result is 0). A weight of -5 with
  exactly one rep is returned unchanged: the test \<open>reps == 1\<close> comes before the test
  \<open>weight <= 0\<close> that returns 0 for every other number of reps. By the two lemmas above
  this is the only place where the result is not 0: exactly one rep and a weight below 0.
\<close>

theorem calculate_1rm_negative_weight_one_rep:
  "calculate_1rm (- 5) 1 ''epley'' = - 5"
  by (simp add: calculate_1rm_def)

section \<open>Properties of the health score\<close>

lemma len_history: "len (history ds) = length ds"
  by (simp add: history_def data_frame_def len_def)

lemma py_round_ge: "of_int a \<le> x \<Longrightarrow> a \<le> py_round x"
proof -
  assume "of_int a \<le> x"
  then have "a \<le> \<lfloor>x\<rfloor>" by (simp add: le_floor_iff)
  then show ?thesis by (simp add: py_round_def Let_def)
qed

lemma py_round_le: "x \<le> of_int b \<Longrightarrow> py_round x \<le> b"
proof -
  assume xb: "x \<le> of_int b"
  have fl: "\<lfloor>x\<rfloor> \<le> b" using xb by (simp add: floor_le_iff)
  show ?thesis
  proof (cases "x - of_int \<lfloor>x\<rfloor> < 1 / 2")
    case True
    then show ?thesis using fl by (simp add: py_round_def Let_def)
  next
    case False
    then have "of_int \<lfloor>x\<rfloor> < x" by simp
    then have "of_int \<lfloor>x\<rfloor> < (of_int b :: real)" using xb by simp
    then have "\<lfloor>x\<rfloor> < b" by simp
    then show ?thesis by (simp add: py_round_def Let_def)
  qed
qed

lemma clamp_fl:
  "\<exists>c. py_min (Finite 25) (py_max (Finite 0) x) = Finite c \<and> 0 \<le> c \<and> c \<le> 25"
  by (cases x) (auto simp: py_min_def py_max_def)

lemma round_clamp:
  "\<exists>n. round_fl (py_min (Finite 25) (py_max (Finite 0) x)) = Inr n \<and> 0 \<le> n \<and> n \<le> 25"
proof -
  obtain c where c: "py_min (Finite 25) (py_max (Finite 0) x) = Finite c" "0 \<le> c" "c \<le> 25"
    using clamp_fl by blast
  have "0 \<le> py_round c" using c(2) py_round_ge [of 0 c] by simp
  moreover have "py_round c \<le> 25" using c(3) py_round_le [of c 25] by simp
  ultimately show ?thesis using c(1) by simp
qed

lemma py_round_half: "py_round (25 / 2) = 12"
  by (simp add: py_round_def Let_def)


lemma progress_raw_rounds:
  "\<exists>n. round_fl (progress_raw df) = Inr n \<and> 0 \<le> n \<and> n \<le> 25"
proof -
  have half: "\<exists>n. round_fl (Finite (125 / 10)) = Inr n \<and> 0 \<le> n \<and> n \<le> 25"
    by (simp add: py_round_half)
  show ?thesis
    unfolding progress_raw_def Let_def
    using half round_clamp by (auto split: option.splits)
qed

lemma volume_raw_rounds:
  "\<exists>n. round_fl (volume_raw df) = Inr n \<and> 0 \<le> n \<and> n \<le> 25"
proof -
  have half: "\<exists>n. round_fl (Finite (125 / 10)) = Inr n \<and> 0 \<le> n \<and> n \<le> 25"
    by (simp add: py_round_half)
  show ?thesis
    unfolding volume_raw_def Let_def
    using half round_clamp by auto
qed

lemma consistency_raw_le: "consistency_raw rows \<le> 25"
  unfolding consistency_raw_def Let_def
  by (auto split: option.splits)

lemma consistency_bounds:
  "0 \<le> max 0 (py_round (consistency_raw rows)) \<and> max 0 (py_round (consistency_raw rows)) \<le> 25"
  using py_round_le [of "consistency_raw rows" 25] consistency_raw_le [of rows] by simp

lemma recovery_bounds: "recovery_raw df = Inr rec \<Longrightarrow> 0 \<le> max 0 rec \<and> max 0 rec \<le> 25"
  by (auto simp: recovery_raw_def split: if_splits sum.splits)

lemma streaks_returns:
  "\<forall>r\<in>set rows. perceived_exertion r \<noteq> None_cell \<Longrightarrow> \<exists>n. streaks rows a b = Inr n"
proof (induction rows arbitrary: a b)
  case Nil
  then show ?case by simp
next
  case (Cons row rows)
  then show ?case by (cases "perceived_exertion row") auto
qed

lemma streaks_raises:
  "\<exists>r\<in>set rows. perceived_exertion r = None_cell \<Longrightarrow>
   streaks rows a b = Inl (TypeError ''>= not supported between instances of NoneType and int'')"
proof (induction rows arbitrary: a b)
  case Nil
  then show ?case by simp
next
  case (Cons row rows)
  then show ?case by (cases "perceived_exertion row") auto
qed

lemma exertion_cells_scanned:
  "perceived_exertion ` set (records (convert_dates (sort_values df)))
     = perceived_exertion ` set (records df)"
proof -
  have "records (convert_dates (sort_values df))
          = map (\<lambda>r. r\<lparr>workout_date := to_datetime (workout_date r)\<rparr>) (records (sort_values df))"
    by (simp add: convert_dates_def records_def case_prod_beta comp_def)
  moreover have "set (records (sort_values df)) = set (records df)"
    by (simp add: sort_values_def records_def)
  ultimately show ?thesis by (simp add: image_image)
qed

lemma has_column_scanned: "has_column c (convert_dates (sort_values df)) = has_column c df"
  by (simp add: has_column_def convert_dates_def sort_values_def)

text \<open>
  The health score of a table with at least 5 sessions and no \<open>None\<close> cell in
  \<open>perceived_exertion\<close> (or no such column): a score is returned, it is the sum of the
  four sub-scores consistency, progress, volume and recovery, each sub-score lies in
  [0, 25] and the score lies in [0, 100].
\<close>

lemma health_score_bounds:
  assumes "5 \<le> len df"
    and cells: "has_column ''perceived_exertion'' df \<Longrightarrow>
                  \<forall>r\<in>set (records df). perceived_exertion r \<noteq> None_cell"
  shows "\<exists>r. get_health_score df = Inr (Health r)
           \<and> score r = consistency (breakdown r) + progress (breakdown r)
                         + volume (breakdown r) + recovery (breakdown r)
           \<and> 0 \<le> consistency (breakdown r) \<and> consistency (breakdown r) \<le> 25
           \<and> 0 \<le> progress (breakdown r) \<and> progress (breakdown r) \<le> 25
           \<and> 0 \<le> volume (breakdown r) \<and> volume (breakdown r) \<le> 25
           \<and> 0 \<le> recovery (breakdown r) \<and> recovery (breakdown r) \<le> 25
           \<and> 0 \<le> score r \<and> score r \<le> 100"
proof -
  define sdf where "sdf = convert_dates (sort_values df)"
  obtain p where p: "round_fl (progress_raw sdf) = Inr p" "0 \<le> p" "p \<le> 25"
    using progress_raw_rounds by blast
  obtain v where v: "round_fl (volume_raw sdf) = Inr v" "0 \<le> v" "v \<le> 25"
    using volume_raw_rounds by blast
  obtain rec where rec: "recovery_raw sdf = Inr rec"
  proof (cases "has_column ''perceived_exertion'' df")
    case True
    then have "\<forall>r\<in>set (records sdf). perceived_exertion r \<noteq> None_cell"
      using cells exertion_cells_scanned [of df] unfolding sdf_def by (metis imageE imageI)
    then obtain n where "streaks (records sdf) 0 0 = Inr n"
      using streaks_returns by blast
    then show ?thesis
      using that True by (simp add: recovery_raw_def sdf_def has_column_scanned)
  next
    case False
    then show ?thesis
      using that by (simp add: recovery_raw_def sdf_def has_column_scanned)
  qed
  define c where "c = max 0 (py_round (consistency_raw (records sdf)))"
  define rc where "rc = max 0 rec"
  have c: "0 \<le> c" "c \<le> 25" using consistency_bounds [of "records sdf"] by (simp_all add: c_def)
  have rc: "0 \<le> rc" "rc \<le> 25" using recovery_bounds [OF rec] by (simp_all add: rc_def)
  define sc where "sc = \<lparr>consistency = c, progress = p, volume = v, recovery = rc\<rparr>"
  define r where "r = \<lparr>score = c + p + v + rc, rating = rating_of (c + p + v + rc),
                        breakdown = sc, recommendations = get_recommendations sc\<rparr>"
  have "get_health_score df = Inr (Health r)"
    using assms(1) p(1) v(1) rec
    by (simp add: get_health_score_def Let_def sdf_def [symmetric] c_def rc_def sc_def r_def)
  moreover have "score r = c + p + v + rc" "breakdown r = sc" by (simp_all add: r_def)
  moreover have "consistency sc = c" "progress sc = p" "volume sc = v" "recovery sc = rc"
    by (simp_all add: sc_def)
  ultimately show ?thesis
    using c rc p(2,3) v(2,3) by (intro exI [of _ r]) simp
qed

text \<open>
  With the column present and a \<open>None\<close> cell in it, the comparison of the recovery loop
  raises, whatever the other columns hold.
\<close>

lemma get_health_score_raises:
  assumes "5 \<le> len df"
    and "has_column ''perceived_exertion'' df"
    and "\<exists>r\<in>set (records df). perceived_exertion r = None_cell"
  shows "get_health_score df
           = Inl (TypeError ''>= not supported between instances of NoneType and int'')"
proof -
  define sdf where "sdf = convert_dates (sort_values df)"
  obtain p where p: "round_fl (progress_raw sdf) = Inr p"
    using progress_raw_rounds by blast
  obtain v where v: "round_fl (volume_raw sdf) = Inr v"
    using volume_raw_rounds by blast
  have "\<exists>r\<in>set (records sdf). perceived_exertion r = None_cell"
    using assms(3) exertion_cells_scanned [of df] unfolding sdf_def by (metis imageE imageI)
  then have "streaks (records sdf) 0 0
               = Inl (TypeError ''>= not supported between instances of NoneType and int'')"
    by (rule streaks_raises)
  then have "recovery_raw sdf
               = Inl (TypeError ''>= not supported between instances of NoneType and int'')"
    using assms(2) by (simp add: recovery_raw_def sdf_def has_column_scanned)
  then show ?thesis
    using assms(1) p v by (simp add: get_health_score_def Let_def sdf_def [symmetric])
qed

text \<open>
  C5 (the claim: for every session table with at least 5 sessions \<open>get_health_score\<close>
  returns a score in [0, 100] that is the sum of four sub-scores in [0, 25]). On five
  sessions whose \<open>perceived_exertion\<close> cells are Python's \<open>None\<close> the call ends with a
  \<open>TypeError\<close> from \<open>row.get('perceived_exertion', 0) >= 8\<close> and returns no score.
\<close>

theorem get_health_score_none_exertion:
  "get_health_score unlogged_exertion
     = Inl (TypeError ''>= not supported between instances of NoneType and int'')"
  by (rule get_health_score_raises)
    (simp_all add: unlogged_exertion_def data_frame_def len_def has_column_def
       session_columns_def records_def)

text \<open>
  The score of five sessions three days apart with a constant 1RM, a constant volume
  and NaN in \<open>perceived_exertion\<close>: 25 for consistency, 12 for progress (12.5 rounded
  to even), 22 for volume (22.5 rounded to even) and 25 for recovery.
\<close>

lemma steady_history_sorted: "convert_dates (sort_values (history [0, 3, 6, 9, 12])) =
   \<lparr>columns = session_columns,
    body = [(0, session_on 0 100\<lparr>workout_date := Timestamp 0\<rparr>),
            (1, session_on 3 100\<lparr>workout_date := Timestamp 3\<rparr>),
            (2, session_on 6 100\<lparr>workout_date := Timestamp 6\<rparr>),
            (3, session_on 9 100\<lparr>workout_date := Timestamp 9\<rparr>),
            (4, session_on 12 100\<lparr>workout_date := Timestamp 12\<rparr>)]\<rparr>"
  by code_simp

lemma steady_history_consistency: "consistency_raw (records (convert_dates (sort_values (history [0, 3, 6, 9, 12])))) = 25"
  unfolding steady_history_sorted
  by (simp add: consistency_raw_def records_def session_on_def dropna_def mean_def var_def Let_def)

lemma steady_history_progress: "progress_raw (convert_dates (sort_values (history [0, 3, 6, 9, 12]))) = Finite (25 / 2)"
  unfolding steady_history_sorted
  by (simp add: progress_raw_def records_def session_on_def dropna_def mean_def Let_def
      has_column_def session_columns_def head_def tail_def py_min_def py_max_def)

lemma steady_history_volume: "volume_raw (convert_dates (sort_values (history [0, 3, 6, 9, 12]))) = Finite (45 / 2)"
  unfolding steady_history_sorted
  by (simp add: volume_raw_def records_def session_on_def dropna_def mean_def std_def var_def Let_def
      has_column_def session_columns_def py_min_def py_max_def pct_change_def change_def fdiv_def
      fl_mean_def)

lemma steady_history_recovery: "recovery_raw (convert_dates (sort_values (history [0, 3, 6, 9, 12]))) = Inr 25"
  unfolding steady_history_sorted
  by (simp add: recovery_raw_def records_def session_on_def has_column_def session_columns_def)

lemma steady_history_score: "get_health_score (history [0, 3, 6, 9, 12]) =
  Inr (Health \<lparr>score = 84, rating = ''Excellent'',
     breakdown = \<lparr>consistency = 25, progress = 12, volume = 22, recovery = 25\<rparr>,
     recommendations = [''Keep up the great work! Your training looks well-balanced.'']\<rparr>)"
  by (simp add: get_health_score_def Let_def steady_history_consistency steady_history_progress
      steady_history_volume steady_history_recovery len_history py_round_def rating_of_def
      get_recommendations_def)

section \<open>Properties: too few sessions\<close>

lemma detect_anomalies_few: "len df < 3 \<Longrightarrow> detect_anomalies self df = Inr []"
  by (simp add: detect_anomalies_def)

lemma get_health_score_few:
  "len df < 5 \<Longrightarrow> get_health_score df = Inr (NoScore ''Need at least 5 workouts for health score'')"
  by (simp add: get_health_score_def)

lemma suggest_deload_few: "len df < 8 \<Longrightarrow> suggest_deload df sets_df = NotEnoughHistory"
  by (simp add: suggest_deload_def)

lemma prepare_data_few:
  "len df < 2 \<Longrightarrow> prepare_data df = Inl (ValueError ''Need at least 2 data points for prediction'')"
  by (simp add: prepare_data_def)

lemma train_few:
  "len df < 2 \<Longrightarrow>
   train sk self df = (self, Inl (ValueError ''Need at least 2 data points for prediction''))"
  by (simp add: train_def prepare_data_few)

text \<open>
  C1 (the claim: below its minimum number of sessions every operation, \<open>train\<close>
  included, returns a "not enough data" result and never raises). \<open>train\<close> on a
  table of one session ends with the \<open>ValueError\<close> that \<open>prepare_data\<close> raises.
\<close>

theorem train_insufficient_data_counterexample:
  "len (history [0]) < 2
   \<and> snd (train (linear_sklearn [0, 0, 0, 1, 0]) new_predictor (history [0]))
       = Inl (ValueError ''Need at least 2 data points for prediction'')"
  by (simp add: train_few len_history)

text \<open>
  C1, amended: with fewer than 3 sessions \<open>detect_anomalies\<close> returns the empty list,
  with fewer than 5 \<open>get_health_score\<close> returns no score and a message, with fewer
  than 8 \<open>suggest_deload\<close> returns \<open>needs_deload\<close> false, none of them raising;
  with fewer than 2 sessions \<open>train\<close> raises \<open>ValueError\<close> and leaves the
  predictor as it was.
\<close>

theorem insufficient_data:
  "(len df < 3 \<longrightarrow> detect_anomalies self df = Inr [])
   \<and> (len df < 5 \<longrightarrow>
        get_health_score df = Inr (NoScore ''Need at least 5 workouts for health score''))
   \<and> (len df < 8 \<longrightarrow>
        suggest_deload df sets_df = NotEnoughHistory
        \<and> \<not> needs_deload (suggest_deload df sets_df))
   \<and> (len df < 2 \<longrightarrow>
        train sk p df = (p, Inl (ValueError ''Need at least 2 data points for prediction'')))"
  by (simp add: detect_anomalies_few get_health_score_few suggest_deload_few train_few)

theorem insufficient_data_witness:
  "len (history [0]) < 2
   \<and> detect_anomalies \<lparr>z_threshold = 2\<rparr> (history [0]) = Inr []
   \<and> get_health_score (history [0]) = Inr (NoScore ''Need at least 5 workouts for health score'')
   \<and> suggest_deload (history [0]) no_sets = NotEnoughHistory
   \<and> \<not> needs_deload (suggest_deload (history [0]) no_sets)
   \<and> train (linear_sklearn [0, 0, 0, 1, 0]) new_predictor (history [0])
       = (new_predictor, Inl (ValueError ''Need at least 2 data points for prediction''))"
  using insufficient_data [of "history [0]" "\<lparr>z_threshold = 2\<rparr>" no_sets
      "linear_sklearn [0, 0, 0, 1, 0]" new_predictor]
  by (simp add: len_history)

section \<open>Properties: zero standard deviation\<close>

lemma collect_Inr:
  "(\<And>x. x \<in> set xs \<Longrightarrow> \<exists>ys. f x = Inr ys) \<Longrightarrow>
   \<exists>zs. collect f xs = Inr zs \<and> (\<forall>a\<in>set zs. \<exists>x\<in>set xs. \<exists>ys. f x = Inr ys \<and> a \<in> set ys)"
proof (induction xs)
  case Nil
  then show ?case by simp
next
  case (Cons x xs)
  obtain ys where ys: "f x = Inr ys" using Cons.prems by auto
  obtain zs where zs: "collect f xs = Inr zs"
    "\<forall>a\<in>set zs. \<exists>x\<in>set xs. \<exists>ys. f x = Inr ys \<and> a \<in> set ys"
    using Cons.IH Cons.prems by auto
  have "collect f (x # xs) = Inr (ys @ zs)" using ys zs(1) by simp
  moreover have "\<forall>a\<in>set (ys @ zs). \<exists>x'\<in>set (x # xs). \<exists>ys'. f x' = Inr ys' \<and> a \<in> set ys'"
    using ys zs(2) by auto
  ultimately show ?case by blast
qed

lemma performance_row_Inr:
  "\<exists>ys. performance_row self row rm rs = Inr ys
        \<and> (\<forall>a\<in>set ys. (\<exists>s. rs = Some s \<and> s \<noteq> 0) \<and> date a = day_of (workout_date row))"
  by (auto simp: performance_row_def z_score_def split: option.splits)

lemma performance_row_zero_std: "performance_row self row rm (Some 0) = Inr []"
  by (simp add: performance_row_def split: option.splits)

lemma volume_row_Inr: "s \<noteq> 0 \<Longrightarrow> \<exists>ys. volume_row self m s row = Inr ys"
  by (simp add: volume_row_def z_score_def)

lemma detect_performance_Inr:
  "\<exists>perf. detect_performance_anomalies self df = Inr perf
     \<and> (\<forall>a\<in>set perf. \<exists>i<len df. (\<exists>s. rolling_std (records df) i = Some s \<and> s \<noteq> 0)
                                  \<and> date a = day_of (workout_date (records df ! i)))"
proof (cases "\<not> has_column ''estimated_1rm'' df \<or> list_all (\<lambda>r. estimated_1rm r = None) (records df)")
  case True
  then show ?thesis by (auto simp: detect_performance_anomalies_def Let_def)
next
  case False
  let ?rows = "records df"
  let ?f = "\<lambda>i. performance_row self (?rows ! i) (rolling_mean ?rows i) (rolling_std ?rows i)"
  have "\<And>i. i \<in> set [0..<length ?rows] \<Longrightarrow> \<exists>ys. ?f i = Inr ys"
    using performance_row_Inr by blast
  from collect_Inr [of "[0..<length ?rows]" ?f, OF this]
  obtain zs where zs: "collect ?f [0..<length ?rows] = Inr zs"
    "\<forall>a\<in>set zs. \<exists>i\<in>set [0..<length ?rows]. \<exists>ys. ?f i = Inr ys \<and> a \<in> set ys"
    by blast
  have eq: "detect_performance_anomalies self df = Inr zs"
    using False zs(1) by (simp add: detect_performance_anomalies_def Let_def)
  have "\<forall>a\<in>set zs. \<exists>i<len df. (\<exists>s. rolling_std ?rows i = Some s \<and> s \<noteq> 0)
                                  \<and> date a = day_of (workout_date (?rows ! i))"
  proof
    fix a assume "a \<in> set zs"
    then obtain i ys where i: "i < length ?rows" "?f i = Inr ys" "a \<in> set ys"
      using zs(2) by auto
    obtain ys' where ys': "?f i = Inr ys'"
      "\<forall>a\<in>set ys'. (\<exists>s. rolling_std ?rows i = Some s \<and> s \<noteq> 0)
          \<and> date a = day_of (workout_date (?rows ! i))"
      using performance_row_Inr by blast
    have "ys' = ys" using i(2) ys'(1) by simp
    then show "\<exists>i<len df. (\<exists>s. rolling_std ?rows i = Some s \<and> s \<noteq> 0)
                                  \<and> date a = day_of (workout_date (?rows ! i))"
      using i(1,3) ys'(2) by (auto simp: len_def records_def)
  qed
  then show ?thesis using eq by blast
qed

lemma detect_volume_Inr:
  "\<exists>vol. detect_volume_anomalies self df = Inr vol
     \<and> (std (map total_volume (records df)) = Some 0 \<longrightarrow> vol = [])"
proof (cases "has_column ''total_volume'' df")
  case False
  then show ?thesis by (simp add: detect_volume_anomalies_def)
next
  case True
  show ?thesis
  proof (cases "std (map total_volume (records df))")
    case None
    then show ?thesis using True by (simp add: detect_volume_anomalies_def Let_def)
  next
    case (Some s)
    show ?thesis
    proof (cases "s = 0")
      case True
      then show ?thesis using Some \<open>has_column ''total_volume'' df\<close>
        by (simp add: detect_volume_anomalies_def Let_def)
    next
      case False
      show ?thesis
      proof (cases "mean (map total_volume (records df))")
        case None
        then show ?thesis using Some False True
          by (simp add: detect_volume_anomalies_def Let_def)
      next
        case (Some m)
        have "\<And>x. x \<in> set (records df) \<Longrightarrow> \<exists>ys. volume_row self m s x = Inr ys"
          using volume_row_Inr [OF False] by blast
        from collect_Inr [of "records df" "volume_row self m s", OF this]
        obtain zs where "collect (volume_row self m s) (records df) = Inr zs" by blast
        then show ?thesis
          using Some \<open>std (map total_volume (records df)) = Some s\<close> False True
          by (simp add: detect_volume_anomalies_def Let_def)
      qed
    qed
  qed
qed

lemma performance_row_types:
  "performance_row self row rm rs = Inr ys \<Longrightarrow> a \<in> set ys \<Longrightarrow>
   atype a = PERFORMANCE_DROP \<or> atype a = PERFORMANCE_SPIKE"
  by (auto simp: performance_row_def z_score_def split: option.splits if_splits)

lemma volume_row_types:
  "volume_row self m s row = Inr ys \<Longrightarrow> a \<in> set ys \<Longrightarrow>
   atype a = VOLUME_SPIKE \<or> atype a = VOLUME_DROP"
  by (auto simp: volume_row_def z_score_def split: if_splits)

lemma collect_members:
  "collect f xs = Inr zs \<Longrightarrow> a \<in> set zs \<Longrightarrow> \<exists>x\<in>set xs. \<exists>ys. f x = Inr ys \<and> a \<in> set ys"
proof (induction xs arbitrary: zs)
  case Nil
  then show ?case by simp
next
  case (Cons x xs)
  then show ?case by (auto split: sum.splits)
qed

lemma detect_performance_types:
  "detect_performance_anomalies self df = Inr perf \<Longrightarrow> a \<in> set perf \<Longrightarrow>
   atype a = PERFORMANCE_DROP \<or> atype a = PERFORMANCE_SPIKE"
  by (auto simp: detect_performance_anomalies_def Let_def split: if_splits
      dest!: collect_members dest: performance_row_types)

lemma detect_volume_types:
  "detect_volume_anomalies self df = Inr vol \<Longrightarrow> a \<in> set vol \<Longrightarrow>
   atype a = VOLUME_SPIKE \<or> atype a = VOLUME_DROP"
  by (auto simp: detect_volume_anomalies_def Let_def split: if_splits option.splits
      dest!: collect_members dest: volume_row_types)

lemma detect_fatigue_types:
  "a \<in> set (detect_fatigue_signals df) \<Longrightarrow> atype a = HIGH_FATIGUE"
  by (auto simp: detect_fatigue_signals_def Let_def fatigue_row_def split: option.splits if_splits)

lemma detect_gap_types:
  "a \<in> set (detect_training_gaps df) \<Longrightarrow> atype a = LONG_GAP"
  by (auto simp: detect_training_gaps_def Let_def gap_row_def split: option.splits if_splits)

lemma detect_anomalies_parts:
  assumes "\<not> len df < 3"
  shows "\<exists>perf vol.
           detect_performance_anomalies self (convert_dates (sort_values df)) = Inr perf
           \<and> detect_volume_anomalies self (convert_dates (sort_values df)) = Inr vol
           \<and> detect_anomalies self df =
               Inr (sort_key (\<lambda>a. - date a)
                      (perf @ vol @ detect_fatigue_signals (convert_dates (sort_values df))
                         @ detect_training_gaps (convert_dates (sort_values df))))"
proof -
  obtain perf where "detect_performance_anomalies self (convert_dates (sort_values df)) = Inr perf"
    using detect_performance_Inr by blast
  moreover obtain vol where "detect_volume_anomalies self (convert_dates (sort_values df)) = Inr vol"
    using detect_volume_Inr by blast
  ultimately show ?thesis using assms by (simp add: detect_anomalies_def Let_def)
qed

lemma detect_anomalies_zero_std:
  "\<exists>found. detect_anomalies self df = Inr found
     \<and> (\<forall>a\<in>set found. atype a = PERFORMANCE_DROP \<or> atype a = PERFORMANCE_SPIKE \<longrightarrow>
          (\<exists>i<length (records (convert_dates (sort_values df))).
             (\<exists>s. rolling_std (records (convert_dates (sort_values df))) i = Some s \<and> s \<noteq> 0)
             \<and> date a = day_of (workout_date (records (convert_dates (sort_values df)) ! i))))
     \<and> (std (map total_volume (records (convert_dates (sort_values df)))) = Some 0 \<longrightarrow>
          (\<forall>a\<in>set found. atype a \<noteq> VOLUME_SPIKE \<and> atype a \<noteq> VOLUME_DROP))"
proof (cases "len df < 3")
  case True
  then show ?thesis by (simp add: detect_anomalies_def)
next
  case False
  let ?S = "convert_dates (sort_values df)"
  from detect_anomalies_parts [OF False, of self]
  obtain perf vol where
    perf: "detect_performance_anomalies self ?S = Inr perf"
    and vol: "detect_volume_anomalies self ?S = Inr vol"
    and found: "detect_anomalies self df =
      Inr (sort_key (\<lambda>a. - date a)
             (perf @ vol @ detect_fatigue_signals ?S @ detect_training_gaps ?S))"
    by blast
  let ?found = "sort_key (\<lambda>a. - date a)
             (perf @ vol @ detect_fatigue_signals ?S @ detect_training_gaps ?S)"
  have members: "set ?found = set perf \<union> set vol \<union> set (detect_fatigue_signals ?S)
                    \<union> set (detect_training_gaps ?S)"
    by auto
  obtain perf' where perf': "detect_performance_anomalies self ?S = Inr perf'"
    "\<forall>a\<in>set perf'. \<exists>i<len ?S. (\<exists>s. rolling_std (records ?S) i = Some s \<and> s \<noteq> 0)
                                  \<and> date a = day_of (workout_date (records ?S ! i))"
    using detect_performance_Inr by blast
  have same: "perf' = perf" using perf perf'(1) by simp
  obtain vol' where vol': "detect_volume_anomalies self ?S = Inr vol'"
    "std (map total_volume (records ?S)) = Some 0 \<longrightarrow> vol' = []"
    using detect_volume_Inr by blast
  have same_vol: "vol' = vol" using vol vol'(1) by simp
  have first: "\<forall>a\<in>set ?found. atype a = PERFORMANCE_DROP \<or> atype a = PERFORMANCE_SPIKE \<longrightarrow>
          (\<exists>i<length (records ?S).
             (\<exists>s. rolling_std (records ?S) i = Some s \<and> s \<noteq> 0)
             \<and> date a = day_of (workout_date (records ?S ! i)))"
  proof (intro ballI impI)
    fix a assume a: "a \<in> set ?found"
      and t: "atype a = PERFORMANCE_DROP \<or> atype a = PERFORMANCE_SPIKE"
    have "a \<notin> set vol" using detect_volume_types [OF vol, of a] t by auto
    moreover have "a \<notin> set (detect_fatigue_signals ?S)"
      using detect_fatigue_types [of a ?S] t by auto
    moreover have "a \<notin> set (detect_training_gaps ?S)"
      using detect_gap_types [of a ?S] t by auto
    ultimately have "a \<in> set perf" using a members by blast
    then show "\<exists>i<length (records ?S).
             (\<exists>s. rolling_std (records ?S) i = Some s \<and> s \<noteq> 0)
             \<and> date a = day_of (workout_date (records ?S ! i))"
      using perf'(2) same by (simp add: len_def records_def)
  qed
  have second: "std (map total_volume (records ?S)) = Some 0 \<longrightarrow>
          (\<forall>a\<in>set ?found. atype a \<noteq> VOLUME_SPIKE \<and> atype a \<noteq> VOLUME_DROP)"
  proof (intro impI ballI)
    fix a assume z: "std (map total_volume (records ?S)) = Some 0" and a: "a \<in> set ?found"
    have "vol = []" using vol'(2) same_vol z by simp
    then have "a \<in> set perf \<or> a \<in> set (detect_fatigue_signals ?S)
                  \<or> a \<in> set (detect_training_gaps ?S)"
      using a members by auto
    then show "atype a \<noteq> VOLUME_SPIKE \<and> atype a \<noteq> VOLUME_DROP"
      using detect_performance_types [OF perf, of a] detect_fatigue_types [of a ?S]
        detect_gap_types [of a ?S] by auto
  qed
  show ?thesis using found first second by blast
qed


text \<open>
  C6: \<open>detect_anomalies\<close> never divides by a zero standard deviation (it returns a
  list, not \<open>ZeroDivisionError\<close>). In the list it returns, every performance anomaly
  (\<open>PERFORMANCE_DROP\<close>, \<open>PERFORMANCE_SPIKE\<close>) is dated at a session of the table, in
  the date order in which it is scanned, whose rolling standard deviation of
  \<open>estimated_1rm\<close> is defined and not zero; and when the standard deviation of
  \<open>total_volume\<close> is zero the list holds no volume anomaly (\<open>VOLUME_SPIKE\<close>,
  \<open>VOLUME_DROP\<close>). The same holds of the two detectors on any table: the performance
  detector returns only anomalies of sessions with a non-zero rolling standard deviation,
  a row whose rolling standard deviation is exactly zero contributes nothing, and the
  volume detector returns the empty list when the standard deviation is zero.
\<close>

theorem zero_std_emits_nothing:
  "(\<exists>found. detect_anomalies self df = Inr found
     \<and> (\<forall>a\<in>set found. atype a = PERFORMANCE_DROP \<or> atype a = PERFORMANCE_SPIKE \<longrightarrow>
          (\<exists>i<length (records (convert_dates (sort_values df))).
             (\<exists>s. rolling_std (records (convert_dates (sort_values df))) i = Some s \<and> s \<noteq> 0)
             \<and> date a = day_of (workout_date (records (convert_dates (sort_values df)) ! i))))
     \<and> (std (map total_volume (records (convert_dates (sort_values df)))) = Some 0 \<longrightarrow>
          (\<forall>a\<in>set found. atype a \<noteq> VOLUME_SPIKE \<and> atype a \<noteq> VOLUME_DROP)))
   \<and> (\<exists>perf. detect_performance_anomalies self df = Inr perf
       \<and> (\<forall>a\<in>set perf. \<exists>i<len df. (\<exists>s. rolling_std (records df) i = Some s \<and> s \<noteq> 0)
                                  \<and> date a = day_of (workout_date (records df ! i))))
   \<and> (\<forall>i. rolling_std (records df) i = Some 0 \<longrightarrow>
          performance_row self (records df ! i) (rolling_mean (records df) i)
            (rolling_std (records df) i) = Inr [])
   \<and> (\<exists>vol. detect_volume_anomalies self df = Inr vol
       \<and> (std (map total_volume (records df)) = Some 0 \<longrightarrow> vol = []))"
  using detect_anomalies_zero_std [of self df] detect_performance_Inr [of self df]
    detect_volume_Inr [of self df]
  by (simp add: performance_row_zero_std)

lemma records_history: "records (history ds) = map (\<lambda>d. session_on d 100) ds"
  by (simp add: history_def data_frame_def records_def)

lemma flat_scanned:
  "records (convert_dates (sort_values (history [0, 3, 6]))) =
     [session_on 0 100\<lparr>workout_date := Timestamp 0\<rparr>,
      session_on 3 100\<lparr>workout_date := Timestamp 3\<rparr>,
      session_on 6 100\<lparr>workout_date := Timestamp 6\<rparr>]"
  by code_simp

lemma flat_scanned_std:
  "std (map total_volume (records (convert_dates (sort_values (history [0, 3, 6]))))) = Some 0"
  unfolding flat_scanned by (simp add: session_on_def std_def var_def)

lemma flat_scanned_rolling_std:
  "i < 3 \<Longrightarrow> rolling_std (records (convert_dates (sort_values (history [0, 3, 6])))) i = Some s
     \<Longrightarrow> s = 0"
proof -
  assume "i < 3"
    and s: "rolling_std (records (convert_dates (sort_values (history [0, 3, 6])))) i = Some s"
  then consider "i = 0" | "i = 1" | "i = 2" by linarith
  then show ?thesis
    using s unfolding flat_scanned
    by cases
      (simp_all add: session_on_def rolling_std_def rolling_def dropna_def std_def var_def)
qed

theorem zero_std_emits_nothing_witness:
  "\<exists>found. detect_anomalies \<lparr>z_threshold = 2\<rparr> (history [0, 3, 6]) = Inr found
     \<and> filter (\<lambda>a. atype a = PERFORMANCE_DROP \<or> atype a = PERFORMANCE_SPIKE
                    \<or> atype a = VOLUME_SPIKE \<or> atype a = VOLUME_DROP) found = []"
proof -
  let ?df = "history [0, 3, 6]"
  let ?R = "records (convert_dates (sort_values ?df))"
  from conjunct1 [OF zero_std_emits_nothing [of "\<lparr>z_threshold = 2\<rparr>" ?df]]
  obtain found where
    found: "detect_anomalies \<lparr>z_threshold = 2\<rparr> ?df = Inr found"
    and perf: "\<forall>a\<in>set found. atype a = PERFORMANCE_DROP \<or> atype a = PERFORMANCE_SPIKE \<longrightarrow>
          (\<exists>i<length ?R. (\<exists>s. rolling_std ?R i = Some s \<and> s \<noteq> 0)
             \<and> date a = day_of (workout_date (?R ! i)))"
    and vol: "std (map total_volume ?R) = Some 0 \<longrightarrow>
          (\<forall>a\<in>set found. atype a \<noteq> VOLUME_SPIKE \<and> atype a \<noteq> VOLUME_DROP)"
    by blast
  have n: "length ?R = 3" unfolding flat_scanned by simp
  have no_perf: "\<forall>a\<in>set found. \<not> (atype a = PERFORMANCE_DROP \<or> atype a = PERFORMANCE_SPIKE)"
  proof (intro ballI notI)
    fix a assume "a \<in> set found" "atype a = PERFORMANCE_DROP \<or> atype a = PERFORMANCE_SPIKE"
    then obtain i s where "i < length ?R" "rolling_std ?R i = Some s" "s \<noteq> 0"
      using perf by blast
    then show False using flat_scanned_rolling_std [of i s] n by simp
  qed
  have no_vol: "\<forall>a\<in>set found. atype a \<noteq> VOLUME_SPIKE \<and> atype a \<noteq> VOLUME_DROP"
    using vol flat_scanned_std by simp
  have "filter (\<lambda>a. atype a = PERFORMANCE_DROP \<or> atype a = PERFORMANCE_SPIKE
                    \<or> atype a = VOLUME_SPIKE \<or> atype a = VOLUME_DROP) found = []"
    using no_perf no_vol by (auto simp: filter_empty_conv)
  then show ?thesis using found by blast
qed

text \<open>
  A detector with threshold 1 on \<open>spike_rows\<close>: the first session has no rolling
  statistics, the second and third have a rolling standard deviation of zero and are
  skipped, the fourth (mean 105, standard deviation 10, z-score 1.5) is reported.
\<close>

lemma sqrt_100: "sqrt 100 = 10"
  by (rule real_sqrt_unique) simp_all

lemma upt_0_4: "[0..<4] = [0, 1, 2, 3]"
  by code_simp

lemma spike_rolling_std:
  "map (rolling_std spike_rows) [0, 1, 2, 3] = [None, Some 0, Some 0, Some 10]"
  by (simp add: spike_rows_def session_on_def rolling_std_def rolling_def dropna_def std_def var_def
      sqrt_100)

lemma spike_detected:
  "detect_performance_anomalies \<lparr>z_threshold = 1\<rparr> (data_frame session_columns spike_rows) =
     Inr [\<lparr>atype = PERFORMANCE_SPIKE, date = 9, severity = ''low'',
           details = Performance 120 105 (3 / 2)\<rparr>]"
  by (simp add: detect_performance_anomalies_def records_def data_frame_def spike_rows_def
      session_on_def has_column_def session_columns_def Let_def upt_0_4 performance_row_def
      z_score_def rolling_std_def rolling_mean_def rolling_def dropna_def std_def var_def mean_def
      sqrt_100 py_round_n_def py_round_def)

section \<open>Properties of the forecast\<close>

lemma predict_step_session:
  "predict_step sk self m i carry =
     (case predict_session sk self m i of
        Inl e \<Rightarrow> Inl e
      | Inr entry \<Rightarrow> Inr (entry, snd (projr (predict_step sk self m i carry))))"
  by (simp add: predict_step_def predict_session_def Let_def split: option.splits sum.splits)

lemma predict_loop_sessions:
  "predict_loop sk self m js carry ps =
     (case predict_sessions sk self m js of Inl e \<Rightarrow> Inl e | Inr es \<Rightarrow> Inr (ps @ es))"
proof (induction js arbitrary: carry ps)
  case Nil
  then show ?case by simp
next
  case (Cons i js)
  show ?case
  proof (cases "predict_session sk self m i")
    case (Inl e)
    then have "predict_step sk self m i carry = Inl e"
      using predict_step_session [of sk self m i carry] by simp
    then show ?thesis using Inl by simp
  next
    case (Inr entry)
    then obtain c where "predict_step sk self m i carry = Inr (entry, c)"
      using predict_step_session [of sk self m i carry] by simp
    then show ?thesis using Inr Cons.IH by (simp split: sum.splits)
  qed
qed

lemma X_future_rolling_avg: "X_future self i r ! 3 = r"
  by (simp add: X_future_def Let_def)

text \<open>
  C10: in \<open>predict_future\<close> the rolling-average feature of every future session is
  \<open>last_1rm\<close>, the last estimated 1RM of the training set. The loop, which carries
  \<open>future_rolling_avg\<close> from one iteration to the next, returns for any carried value
  what the sessions computed independently of each other return, so no predicted value
  reaches the features of a later session.
\<close>

theorem rolling_avg_feature_constant:
  "predict_future sk self days_ahead sessions_ahead_opt =
     (case model self of
        None \<Rightarrow> Inl (ValueError ''Model not trained. Call train() first.'')
      | Some m \<Rightarrow>
          (case sessions_to_predict self days_ahead sessions_ahead_opt of
             Inl e \<Rightarrow> Inl e
           | Inr sessions_ahead \<Rightarrow> predict_sessions sk self m [1..sessions_ahead]))
   \<and> (\<forall>i. X_future self i (last_1rm self) ! 3 = last_1rm self)
   \<and> (\<forall>m js carry. predict_loop sk self m js carry [] = predict_sessions sk self m js)"
  by (simp add: predict_future_def predict_loop_sessions X_future_rolling_avg
      split: option.splits sum.splits)


theorem rolling_avg_feature_constant_witness:
  "predict_future (linear_sklearn [0, 0, 0, 2, 0])
     (fst (train (linear_sklearn [0, 0, 0, 2, 0]) new_predictor three_sessions)) 14 None =
   Inr [\<lparr>pdate = 21, session_number = 4, predicted_1rm = 220, days_from_now = 7\<rparr>,
        \<lparr>pdate = 28, session_number = 5, predicted_1rm = 220, days_from_now = 14\<rparr>]"
  unfolding conjunct1 [OF rolling_avg_feature_constant
      [of "linear_sklearn [0, 0, 0, 2, 0]"
          "fst (train (linear_sklearn [0, 0, 0, 2, 0]) new_predictor three_sessions)" 14 None]]
  by code_simp

text \<open>
  The example of three sessions a week apart, whatever the scaler and the regression
  model are: when \<open>train\<close> and \<open>predict_future(days_ahead=14)\<close> both return, the
  forecast has two entries, for the sessions 4 and 5, 7 and 14 days after the last
  session. Their \<open>predicted_1rm\<close> is what the model returns for them.
\<close>

lemma prepare_three_sessions:
  "prepare_data three_sessions =
     Inr \<lparr>days_since_start = [0, 7, 14],
          cumulative_volume = [1000, 2000, 3000],
          rolling_avg_1rm = [Finite 100, Finite (205 / 2), Finite 105],
          days_since_last = [7, 7, 7],
          target = [Finite 100, Finite 105, Finite 110],
          processed = [session_on 0 100\<lparr>workout_date := Timestamp 0\<rparr>,
                       session_on 7 105\<lparr>workout_date := Timestamp 7\<rparr>,
                       session_on 14 110\<lparr>workout_date := Timestamp 14\<rparr>]\<rparr>"
  by code_simp

lemma trained_on_three_sessions:
  assumes "train sk new_predictor three_sessions = (self, Inr report)"
  shows "model self \<noteq> None \<and> last_date self = 14 \<and> last_days self = 14
         \<and> last_session self = 3 \<and> avg_days_between self = 7 \<and> last_1rm self = Finite 110"
  using assms
  by (auto simp: train_def prepare_three_sessions Let_def new_predictor_def session_on_def
      split: sum.splits)

lemma predict_sessions_entries:
  "predict_sessions sk self m js = Inr ps \<Longrightarrow>
   map days_from_now ps = map (\<lambda>i. py_int (of_int i * avg_days_between self)) js
   \<and> map session_number ps = map (\<lambda>i. last_session self + i) js"
proof (induction js arbitrary: ps)
  case Nil
  then show ?case by simp
next
  case (Cons i js)
  then show ?case
    by (auto simp: predict_session_def split: sum.splits option.splits)
qed

lemma three_sessions_forecast_days:
  assumes trained: "train sk new_predictor three_sessions = (self, Inr report)"
    and forecast: "predict_future sk self 14 None = Inr ps"
  shows "map days_from_now ps = [7, 14] \<and> map session_number ps = [4, 5]"
proof -
  note f = trained_on_three_sessions [OF trained]
  obtain m where m: "model self = Some m" using f by auto
  have n: "sessions_to_predict self 14 None = Inr 2"
    using f by (simp add: sessions_to_predict_def fdiv_def py_int_def)
  have js: "[1..2] = [1, 2::int]" by code_simp
  have "predict_sessions sk self m [1, 2] = Inr ps"
    using forecast m n js by (simp add: predict_future_def predict_loop_sessions split: sum.splits)
  from predict_sessions_entries [OF this] show ?thesis
    using f by (simp add: py_int_def)
qed

section \<open>Properties of the recommender\<close>

lemma length_diff_days: "length (diff_days ds) = length ds"
  by (cases ds) simp_all

lemma diff_days_nth:
  "i < length ds \<Longrightarrow> diff_days ds ! i = (if i = 0 then None else Some (ds ! i - ds ! (i - 1)))"
  by (cases ds; cases i) simp_all

lemma sort_values_ascending:
  assumes "sorted (map (\<lambda>r. day_of (workout_date r)) rows)"
  shows "sort_values (data_frame cs rows) = data_frame cs rows"
proof -
  have "map (\<lambda>(l, r). day_of (workout_date r)) (zip (map int [0..<length rows]) rows)
          = map (\<lambda>r. day_of (workout_date r)) rows"
    by (rule nth_equalityI) simp_all
  then have "sort_key (\<lambda>(l, r). day_of (workout_date r)) (zip (map int [0..<length rows]) rows)
          = zip (map int [0..<length rows]) rows"
    using assms by (simp add: sort_key_id_if_sorted)
  then show ?thesis by (simp add: sort_values_def data_frame_def)
qed

lemma records_convert_dates:
  "map (\<lambda>r. day_of (workout_date r)) (records (convert_dates df))
     = map (\<lambda>r. day_of (workout_date r)) (records df)"
  by (simp add: convert_dates_def records_def to_datetime_def comp_def case_prod_beta)

lemma labels_convert_dates: "map fst (body (convert_dates df)) = map fst (body df)"
  by (simp add: convert_dates_def comp_def case_prod_beta)

lemma len_convert_dates: "len (convert_dates df) = len df"
  by (simp add: convert_dates_def len_def)

lemma long_breaks_positions:
  assumes "l \<in> set (long_breaks (convert_dates (data_frame cs rows)))"
  shows "\<exists>i. l = int i \<and> 0 < i \<and> i < length rows
            \<and> 7 \<le> day_of (workout_date (rows ! i)) - day_of (workout_date (rows ! (i - 1)))"
proof -
  let ?df = "convert_dates (data_frame cs rows)"
  let ?days = "map (\<lambda>r. day_of (workout_date r)) rows"
  have days: "map (\<lambda>r. day_of (workout_date r)) (records ?df) = ?days"
    by (simp add: records_convert_dates) (simp add: records_def data_frame_def)
  have labels: "map fst (body ?df) = map int [0..<length rows]"
    by (simp add: labels_convert_dates) (simp add: data_frame_def)
  from assms obtain g where
    "(l, g) \<in> set (zip (map int [0..<length rows]) (diff_days ?days))"
    "case g of None \<Rightarrow> False | Some d \<Rightarrow> 7 \<le> d"
    unfolding long_breaks_def days labels by auto
  then obtain i where i: "i < length rows" "l = int i" "g = diff_days ?days ! i"
    "case g of None \<Rightarrow> False | Some d \<Rightarrow> 7 \<le> d"
    by (auto simp: set_zip length_diff_days)
  have g: "g = (if i = 0 then None else Some (?days ! i - ?days ! (i - 1)))"
    using i(1,3) by (simp add: diff_days_nth)
  have pos: "0 < i" using g i(4) by (cases "i = 0") simp_all
  then have "7 \<le> ?days ! i - ?days ! (i - 1)" using g i(4) by simp
  then have "7 \<le> day_of (workout_date (rows ! i)) - day_of (workout_date (rows ! (i - 1)))"
    using i(1) pos by simp
  then show ?thesis using i(1,2) pos by blast
qed

text \<open>
  On a table whose rows are in ascending order of date and carry the default labels (as
  the router's \<open>ORDER BY workout_date\<close> query gives it) the label of a row is its
  position, and the deload rule holds: with at least 16 sessions, at least 21 days
  covered by the last 12, and every gap of 7 days or more followed by at least 16
  sessions, \<open>suggest_deload\<close> returns \<open>needs_deload\<close> true.
\<close>

lemma suggest_deload_ascending:
  assumes ascending: "sorted (map (\<lambda>r. day_of (workout_date r)) rows)"
    and enough: "16 \<le> length rows"
    and covered: "21 \<le> Max (set (map (\<lambda>r. day_of (workout_date r)) (tail 12 rows)))
                        - Min (set (map (\<lambda>r. day_of (workout_date r)) (tail 12 rows)))"
    and since_gap: "\<And>i. 0 < i \<Longrightarrow> i < length rows \<Longrightarrow>
        7 \<le> day_of (workout_date (rows ! i)) - day_of (workout_date (rows ! (i - 1))) \<Longrightarrow>
        i + 16 \<le> length rows"
  shows "needs_deload (suggest_deload (data_frame cs rows) sets_df)"
proof -
  let ?df = "convert_dates (data_frame cs rows)"
  have n: "len ?df = length rows" by (simp add: len_convert_dates) (simp add: len_def data_frame_def)
  have days: "map (\<lambda>r. day_of (workout_date r)) (records ?df)
                = map (\<lambda>r. day_of (workout_date r)) rows"
    by (simp add: records_convert_dates) (simp add: records_def data_frame_def)
  have recs: "length (records ?df) = length rows"
    using n by (simp add: len_def records_def)
  have "map (\<lambda>r. day_of (workout_date r)) (tail 12 (records ?df))
          = drop (length (records ?df) - 12) (map (\<lambda>r. day_of (workout_date r)) (records ?df))"
    by (simp add: tail_def drop_map)
  also have "\<dots> = map (\<lambda>r. day_of (workout_date r)) (tail 12 rows)"
    unfolding days recs by (simp add: tail_def drop_map)
  finally have tl: "map (\<lambda>r. day_of (workout_date r)) (tail 12 (records ?df))
              = map (\<lambda>r. day_of (workout_date r)) (tail 12 rows)" .
  have since: "16 \<le> workouts_since_break ?df"
  proof (cases "long_breaks ?df = []")
    case True
    then show ?thesis using enough n by (simp add: workouts_since_break_def)
  next
    case False
    then have "last (long_breaks ?df) \<in> set (long_breaks ?df)" by simp
    from long_breaks_positions [OF this] since_gap
    obtain i where "last (long_breaks ?df) = int i" "i + 16 \<le> length rows" by blast
    then show ?thesis using False n by (simp add: workouts_since_break_def)
  qed
  have n0: "len (data_frame cs rows) = length rows"
    by (simp add: len_def data_frame_def)
  have tl_set: "(\<lambda>r. day_of (workout_date r)) ` set (tail 12 (records ?df))
                  = (\<lambda>r. day_of (workout_date r)) ` set (tail 12 rows)"
    using arg_cong [OF tl, of set] by simp
  show ?thesis
    using enough covered since
    by (simp add: suggest_deload_def sort_values_ascending [OF ascending] Let_def tl_set n0)
qed

text \<open>
  C9 (the claim: with at least 8 sessions, at least 21 days covered by the last 12 and at
  least 16 sessions since the last gap of 7 days or more, \<open>suggest_deload\<close> returns
  \<open>needs_deload\<close> true). Eighteen sessions, the first followed by a gap of 12 days and
  the other seventeen two days apart: handed over latest first, the table gets the answer
  "continue, 14 workouts until deload"; handed over earliest first, the same sessions get
  "17 workouts since last break". The sorted frame keeps the caller's index labels, and
  the label of the session after the gap is subtracted from the number of rows as if it
  were its position.
\<close>

theorem suggest_deload_latest_first:
  "suggest_deload
     (history [44, 42, 40, 38, 36, 34, 32, 30, 28, 26, 24, 22, 20, 18, 16, 14, 12, 0]) no_sets
     = ContinueTraining 14
   \<and> suggest_deload
     (history [0, 12, 14, 16, 18, 20, 22, 24, 26, 28, 30, 32, 34, 36, 38, 40, 42, 44]) no_sets
     = SinceLastBreak 17"
  by code_simp

lemma analyze_training_balance_frame:
  "fst (analyze_training_balance now workouts_df sets_df exercises_df days)
     = convert_dates workouts_df"
  by (simp add: analyze_training_balance_def Let_def)

text \<open>
  C7 (the claim: no engine operation modifies the tables it is given). After
  \<open>analyze_training_balance\<close> the caller's session table holds timestamps in the column
  \<open>workout_date\<close> where it held the caller's raw dates before the call.
\<close>

theorem analyze_training_balance_modifies_input:
  "map workout_date (records (history [14])) = [Raw 14]
   \<and> map workout_date
        (records (fst (analyze_training_balance 15 (history [14]) no_sets no_exercises 7)))
       = [Timestamp 14]"
  by code_simp

end
